theory Spec2Isabelle
  imports Main
begin

section \<open>The invitation QR tool: data model\<close>

text \<open>
  The program is the single script \<^verbatim>\<open>scripts/generate-qr.py\<close>. Its functions
  \<^verbatim>\<open>create_qr_code\<close>, \<^verbatim>\<open>create_invitation_from_api\<close>,
  \<^verbatim>\<open>print_terminal_qr\<close> and \<^verbatim>\<open>main\<close> are embedded below. Everything the
  script does to the outside world (printing, the HTTP request, the calls into the QR
  library) is recorded as an event of a trace; everything the outside world answers
  (the parsed command line, the process environment, the clock, the HTTP response, an
  exception raised inside a library) is a field of the environment.
  A Python \<^verbatim>\<open>str\<close> is modelled as the list of its UTF-8 bytes.
\<close>

subsection \<open>Python values\<close>

text \<open>
  The values \<^verbatim>\<open>response.json()\<close> can return. \<open>JNull\<close> is Python's \<^verbatim>\<open>None\<close>;
  a \<open>JDict\<close> lists the items of a dict (keys distinct), looked up with \<open>map_of\<close>.
\<close>

datatype json_value =
    JNull
  | JBool bool
  | JInt int
  | JFloat string
  | JStr string
  | JList "json_value list"
  | JDict "(string \<times> json_value) list"

text \<open>
  Exceptions. \<open>RequestException\<close> stands for \<^verbatim>\<open>requests.exceptions.RequestException\<close>
  and its subclasses (the only class the script catches), carrying \<^verbatim>\<open>str(e)\<close>.
\<close>

datatype py_exception =
    RequestException string
  | AttributeError
  | TypeError
  | OtherException string

text \<open>How a run of the script ends other than by returning from \<^verbatim>\<open>main\<close>.\<close>

datatype exit = SysExit int | Uncaught py_exception

subsection \<open>The command line and the parsed arguments\<close>

text \<open>
  What the user supplied, after \<^verbatim>\<open>argparse\<close> has split the command line:
  \<open>None\<close> for an argument that was not given.
\<close>

record command_line =
  given_invitation_url :: "string option"
  given_output_file :: "string option"
  given_from_api :: bool
  given_base_url :: "string option"
  given_api_key :: "string option"
  given_label :: "string option"
  given_output :: "string option"
  given_size :: "int option"
  given_terminal :: bool
  given_json :: bool

text \<open>The namespace \<^verbatim>\<open>args\<close> returned by \<^verbatim>\<open>parser.parse_args()\<close>.\<close>

record args =
  invitation_url :: "string option"
  output_file :: "string option"
  from_api :: bool
  base_url :: string
  api_key :: string
  label :: string
  output_file_flag :: "string option"
  size_arg :: int
  terminal :: bool
  json :: bool

subsection \<open>The QR library and the HTTP library\<close>

datatype error_correction_level =
  ERROR_CORRECT_L | ERROR_CORRECT_M | ERROR_CORRECT_Q | ERROR_CORRECT_H

text \<open>
  A \<^verbatim>\<open>qrcode.QRCode\<close> object after \<^verbatim>\<open>add_data\<close> and \<^verbatim>\<open>make\<close>: the constructor's
  keyword arguments, the data added and the \<^verbatim>\<open>fit\<close> argument of \<^verbatim>\<open>make\<close>.
\<close>

record qr_code =
  version :: nat
  error_correction :: error_correction_level
  box_size :: int
  border :: nat
  qr_data :: json_value
  make_fit :: bool

record http_request =
  request_url :: string
  request_headers :: "(string \<times> string) list"
  request_json :: json_value
  request_timeout :: nat

text \<open>
  A \<^verbatim>\<open>requests.Response\<close>: its status code, the text of the \<^verbatim>\<open>HTTPError\<close> that
  \<^verbatim>\<open>raise_for_status\<close> builds for it, and what \<^verbatim>\<open>response.json()\<close> does.
\<close>

record response =
  status_code :: nat
  http_error_text :: string
  json_result :: "py_exception + json_value"

record datetime =
  year :: nat
  month :: nat
  day :: nat
  hour :: nat
  minute :: nat
  second :: nat

subsection \<open>Environment and trace\<close>

text \<open>
  The environment of one run of \<^verbatim>\<open>main\<close>, which is reached only when \<^verbatim>\<open>qrcode\<close> and
  \<^verbatim>\<open>PIL\<close> were imported (lines 28 to 34 exit otherwise):
  \<^item> \<open>requests_imported\<close>: the module variable \<^verbatim>\<open>requests\<close> is not \<^verbatim>\<open>None\<close> (lines 36 to 39);
  \<^item> \<open>environ_CREDEBL_API_KEY\<close>: the environment variable, \<open>None\<close> when unset;
  \<^item> \<open>datetime_now\<close>: what \<^verbatim>\<open>datetime.now()\<close> returns;
  \<^item> \<open>abspath\<close>: \<^verbatim>\<open>os.path.abspath\<close> in the current working directory;
  \<^item> \<open>requests_post\<close>: what \<^verbatim>\<open>requests.post\<close> does with a request, raise or return;
  \<^item> \<open>qr_image_error\<close>, \<open>qr_ascii_error\<close>: the exception, if any, that the QR library
    raises while it builds, renders and saves or prints a code;
  \<^item> \<open>py_str\<close>: \<^verbatim>\<open>str(v)\<close> for a value that is not a \<^verbatim>\<open>str\<close>;
  \<^item> \<open>json_dumps\<close>: \<^verbatim>\<open>json.dumps(v, indent=2)\<close>.

  The events of a trace: a line printed on standard output, the help text printed by
  \<^verbatim>\<open>parser.print_help()\<close>, the HTTP POST, the image file of \<^verbatim>\<open>create_qr_code\<close> and the
  block art of \<^verbatim>\<open>print_ascii\<close> (with its \<^verbatim>\<open>invert\<close> argument). A run is a trace with
  either the value computed or the way the process ended.
\<close>

record env =
  requests_imported :: bool
  environ_CREDEBL_API_KEY :: "string option"
  datetime_now :: datetime
  abspath :: "string \<Rightarrow> string"
  requests_post :: "http_request \<Rightarrow> py_exception + response"
  qr_image_error :: "qr_code \<Rightarrow> string \<Rightarrow> py_exception option"
  qr_ascii_error :: "qr_code \<Rightarrow> py_exception option"
  py_str :: "json_value \<Rightarrow> string"
  json_dumps :: "json_value \<Rightarrow> string"

datatype event =
    Print string
  | PrintHelp
  | HttpPost http_request
  | QrImageFile qr_code string string string
  | PrintAscii qr_code bool

type_synonym 'a run = "event list \<times> (exit + 'a)"

definition return_run :: "'a \<Rightarrow> 'a run" where
  "return_run x = ([], Inr x)"

definition raise_run :: "exit \<Rightarrow> 'a run" where
  "raise_run e = ([], Inl e)"

definition emit :: "event \<Rightarrow> unit run" where
  "emit e = ([e], Inr ())"

definition print_lines :: "string list \<Rightarrow> unit run" where
  "print_lines ls = (map Print ls, Inr ())"

definition bind_run :: "'a run \<Rightarrow> ('a \<Rightarrow> 'b run) \<Rightarrow> 'b run" where
  "bind_run m f =
     (case m of
        (tr, Inl e) \<Rightarrow> (tr, Inl e)
      | (tr, Inr x) \<Rightarrow> (case f x of (tr', r) \<Rightarrow> (tr @ tr', r)))"

definition exit_status :: "exit + unit \<Rightarrow> int" where
  "exit_status r = (case r of Inr _ \<Rightarrow> 0 | Inl (SysExit n) \<Rightarrow> n | Inl (Uncaught _) \<Rightarrow> 1)"

section \<open>Library functions the script relies on\<close>

subsection \<open>\<^verbatim>\<open>dict.get\<close>\<close>

text \<open>
  \<^verbatim>\<open>d.get(key, default)\<close>. Only a dict has the method: on any other value the
  attribute lookup raises \<^verbatim>\<open>AttributeError\<close>.
\<close>

fun dict_get :: "json_value \<Rightarrow> string \<Rightarrow> json_value \<Rightarrow> py_exception + json_value" where
  "dict_get (JDict items) key dflt =
     Inr (case map_of items key of Some v \<Rightarrow> v | None \<Rightarrow> dflt)"
| "dict_get _ key dflt = Inl AttributeError"

subsection \<open>\<^verbatim>\<open>strftime("%Y%m%d_%H%M%S")\<close>\<close>

definition digit :: "nat \<Rightarrow> char" where
  "digit n = ''0123456789'' ! (n mod 10)"

definition pad2 :: "nat \<Rightarrow> string" where
  "pad2 n = [digit (n div 10), digit n]"

definition pad4 :: "nat \<Rightarrow> string" where
  "pad4 n = [digit (n div 1000), digit (n div 100), digit (n div 10), digit n]"

text \<open>
  The format \<^verbatim>\<open>%Y%m%d_%H%M%S\<close> on a \<^verbatim>\<open>datetime\<close>, whose fields are in range
  (\<open>year\<close> up to 9999, the others below 100); \<^verbatim>\<open>datetime.now()\<close> has a four-digit year.
\<close>

definition strftime :: "datetime \<Rightarrow> string" where
  "strftime t =
     pad4 (year t) @ pad2 (month t) @ pad2 (day t) @ ''_'' @
     pad2 (hour t) @ pad2 (minute t) @ pad2 (second t)"

subsection \<open>\<^verbatim>\<open>requests.utils.quote\<close> and \<^verbatim>\<open>str.replace\<close>\<close>

text \<open>
  \<^verbatim>\<open>requests.utils.quote\<close> is \<^verbatim>\<open>urllib.parse.quote\<close>, called here with its default
  \<^verbatim>\<open>safe='/'\<close>: letters, digits and \<^verbatim>\<open>_.-~\<close> are never quoted, the slash is safe,
  every other byte of the UTF-8 encoding becomes \<^verbatim>\<open>%XX\<close> in upper-case hexadecimal.
  An argument that is neither \<^verbatim>\<open>str\<close> nor \<^verbatim>\<open>bytes\<close> raises \<^verbatim>\<open>TypeError\<close>.
\<close>

definition always_safe :: string where
  "always_safe = ''ABCDEFGHIJKLMNOPQRSTUVWXYZabcdefghijklmnopqrstuvwxyz0123456789_.-~''"

definition hex_digit :: "nat \<Rightarrow> char" where
  "hex_digit n = ''0123456789ABCDEF'' ! (n mod 16)"

definition quote_byte :: "char \<Rightarrow> string" where
  "quote_byte c =
     (if c \<in> set always_safe \<or> c = CHR ''/'' then [c]
      else [CHR ''%'', hex_digit (of_char c div 16), hex_digit (of_char c)])"

definition quote :: "string \<Rightarrow> string" where
  "quote s = concat (map quote_byte s)"

fun quote_value :: "json_value \<Rightarrow> py_exception + string" where
  "quote_value (JStr s) = Inr (quote s)"
| "quote_value _ = Inl TypeError"

text \<open>
  \<^verbatim>\<open>s.replace("&", "%26")\<close>; a value that is not a \<^verbatim>\<open>str\<close> has no such method.
\<close>

definition replace_ampersand :: "string \<Rightarrow> string" where
  "replace_ampersand s = concat (map (\<lambda>c. if c = CHR ''&'' then ''%26'' else [c]) s)"

fun replace_value :: "json_value \<Rightarrow> py_exception + string" where
  "replace_value (JStr s) = Inr (replace_ampersand s)"
| "replace_value _ = Inl AttributeError"

subsection \<open>\<^verbatim>\<open>str()\<close> and \<^verbatim>\<open>Response.raise_for_status\<close>\<close>

text \<open>
  \<^verbatim>\<open>str(v)\<close>, as \<^verbatim>\<open>print\<close> and an f-string apply it: a \<^verbatim>\<open>str\<close> is itself, the
  text of any other value is the environment's.
\<close>

definition str_of :: "env \<Rightarrow> json_value \<Rightarrow> string" where
  "str_of e v = (case v of JStr s \<Rightarrow> s | _ \<Rightarrow> py_str e v)"

text \<open>
  \<^verbatim>\<open>raise_for_status\<close> raises \<^verbatim>\<open>HTTPError\<close> (a \<^verbatim>\<open>RequestException\<close>) for a status
  from 400 to 599, client and server errors, and returns for every other status.
\<close>

definition raise_for_status :: "response \<Rightarrow> py_exception option" where
  "raise_for_status r =
     (if 400 \<le> status_code r \<and> status_code r < 600
      then Some (RequestException (http_error_text r)) else None)"

definition lift_exception :: "py_exception + 'a \<Rightarrow> 'a run" where
  "lift_exception r = (case r of Inl e \<Rightarrow> raise_run (Uncaught e) | Inr x \<Rightarrow> return_run x)"

section \<open>The script\<close>

subsection \<open>\<^verbatim>\<open>parser.parse_args()\<close>: the defaults of lines 119 to 170\<close>

definition parse_args :: "env \<Rightarrow> command_line \<Rightarrow> args" where
  "parse_args e c =
     \<lparr> invitation_url = given_invitation_url c,
       output_file = given_output_file c,
       from_api = given_from_api c,
       base_url = (case given_base_url c of Some b \<Rightarrow> b | None \<Rightarrow> ''http://localhost:8004''),
       api_key =
         (case given_api_key c of
            Some k \<Rightarrow> k
          | None \<Rightarrow> (case environ_CREDEBL_API_KEY e of Some k \<Rightarrow> k | None \<Rightarrow> [])),
       label = (case given_label c of Some l \<Rightarrow> l | None \<Rightarrow> ''CREDEBL Issuer''),
       output_file_flag = given_output c,
       size_arg = (case given_size c of Some n \<Rightarrow> n | None \<Rightarrow> 10),
       terminal = given_terminal c,
       json = given_json c \<rparr>"

subsection \<open>\<^verbatim>\<open>create_qr_code\<close> (lines 42 to 56)\<close>

text \<open>
  The event \<open>QrImageFile qr fill back path\<close> is emitted on entry: it names the QR code
  that lines 44 to 53 build and render with the two colours, and the path that line 54
  saves at. The library may raise in any of these calls, before or during the save;
  the script catches nothing here, and it reaches line 56 only when none raised.
\<close>

definition create_qr_code :: "env \<Rightarrow> json_value \<Rightarrow> string \<Rightarrow> int \<Rightarrow> string run" where
  "create_qr_code e data_arg out size_val =
     (let qr = \<lparr> version = 1, error_correction = ERROR_CORRECT_L, box_size = size_val,
                  border = 4, qr_data = data_arg, make_fit = True \<rparr>
      in bind_run (emit (QrImageFile qr ''black'' ''white'' out)) (\<lambda>_.
           case qr_image_error e qr out of
             Some ex \<Rightarrow> raise_run (Uncaught ex)
           | None \<Rightarrow> return_run out))"

subsection \<open>\<^verbatim>\<open>create_invitation_from_api\<close> (lines 59 to 89)\<close>

definition invitation_request :: "string \<Rightarrow> string \<Rightarrow> string \<Rightarrow> http_request" where
  "invitation_request base key lbl =
     \<lparr> request_url = base @ ''/didcomm/oob/create-invitation'',
       request_headers = [(''authorization'', key), (''Content-Type'', ''application/json'')],
       request_json =
         JDict [(''label'', JStr lbl),
                (''goalCode'', JStr ''issue-vc''),
                (''goal'', JStr ''Issue Verifiable Credential''),
                (''handshake'', JBool True),
                (''handshakeProtocols'',
                   JList [JStr ''https://didcomm.org/didexchange/1.x'',
                          JStr ''https://didcomm.org/connections/1.x'']),
                (''autoAcceptConnection'', JBool True)],
       request_timeout = 30 \<rparr>"

text \<open>The body of the \<^verbatim>\<open>try\<close> of lines 83 to 86, after the POST was sent.\<close>

definition post_and_parse :: "env \<Rightarrow> http_request \<Rightarrow> py_exception + json_value" where
  "post_and_parse e req =
     (case requests_post e req of
        Inl ex \<Rightarrow> Inl ex
      | Inr resp \<Rightarrow>
          (case raise_for_status resp of
             Some ex \<Rightarrow> Inl ex
           | None \<Rightarrow> json_result resp))"

definition create_invitation_from_api ::
    "env \<Rightarrow> string \<Rightarrow> string \<Rightarrow> string \<Rightarrow> json_value run" where
  "create_invitation_from_api e base key lbl =
     (if \<not> requests_imported e then
        bind_run (print_lines [''Error: requests package not installed.'',
                               ''Run: pip install requests'']) (\<lambda>_.
          raise_run (SysExit 1))
      else
        bind_run (emit (HttpPost (invitation_request base key lbl))) (\<lambda>_.
          case post_and_parse e (invitation_request base key lbl) of
            Inr v \<Rightarrow> return_run v
          | Inl (RequestException msg) \<Rightarrow>
              bind_run (print_lines [''Error creating invitation: '' @ msg]) (\<lambda>_.
                raise_run (SysExit 1))
          | Inl ex \<Rightarrow> raise_run (Uncaught ex)))"

subsection \<open>\<^verbatim>\<open>print_terminal_qr\<close> (lines 92 to 104)\<close>

definition print_terminal_qr :: "env \<Rightarrow> json_value \<Rightarrow> unit run" where
  "print_terminal_qr e data_arg =
     (let qr = \<lparr> version = 1, error_correction = ERROR_CORRECT_L, box_size = 1,
                  border = 2, qr_data = data_arg, make_fit = True \<rparr>
      in bind_run (emit (PrintAscii qr True)) (\<lambda>_.
           case qr_ascii_error e qr of
             Some ex \<Rightarrow> raise_run (Uncaught ex)
           | None \<Rightarrow> return_run ()))"

subsection \<open>\<^verbatim>\<open>main\<close> (lines 107 to 238)\<close>

text \<open>Lines 174 to 178: \<^verbatim>\<open>args.output_file_flag or args.output_file\<close>, then the default.\<close>

definition determine_output_file :: "env \<Rightarrow> args \<Rightarrow> string" where
  "determine_output_file e a =
     (let chosen =
        (case output_file_flag a of
           Some f \<Rightarrow> if f \<noteq> [] then Some f else output_file a
         | None \<Rightarrow> output_file a)
      in case chosen of
           Some p \<Rightarrow> p
         | None \<Rightarrow> ''qr_'' @ strftime (datetime_now e) @ ''.png'')"

text \<open>Lines 210 to 213: the error of an invocation that names no source of the URL.\<close>

definition usage_error :: "json_value run" where
  "usage_error =
     bind_run (print_lines [''Error: Either provide invitation_url or use --from-api'']) (\<lambda>_.
     bind_run (emit PrintHelp) (\<lambda>_.
       raise_run (SysExit 1)))"

text \<open>Line 205: \<^verbatim>\<open>invitation_data.get('outOfBandRecord', {}).get('id', 'N/A')\<close>.\<close>

definition oob_record_id :: "json_value \<Rightarrow> py_exception + json_value" where
  "oob_record_id invitation_data =
     (case dict_get invitation_data ''outOfBandRecord'' (JDict []) of
        Inl ex \<Rightarrow> Inl ex
      | Inr oob \<Rightarrow> dict_get oob ''id'' (JStr ''N/A''))"

text \<open>Lines 198 to 206: what \<^verbatim>\<open>main\<close> does with the value the API returned.\<close>

definition read_invitation :: "env \<Rightarrow> args \<Rightarrow> json_value \<Rightarrow> json_value run" where
  "read_invitation e a invitation_data =
     bind_run (lift_exception (dict_get invitation_data ''invitationUrl'' JNull)) (\<lambda>url.
     bind_run (if json a then print_lines [json_dumps e invitation_data, []]
               else return_run ()) (\<lambda>_.
     bind_run (print_lines [''Invitation created successfully!'']) (\<lambda>_.
     bind_run (lift_exception (oob_record_id invitation_data)) (\<lambda>record_id.
     bind_run (print_lines [''  OOB Record ID: '' @ str_of e record_id, []]) (\<lambda>_.
       return_run url)))))"

text \<open>Lines 180 to 213: the invitation URL, from the API or from the command line.\<close>

definition get_invitation_url :: "env \<Rightarrow> args \<Rightarrow> json_value run" where
  "get_invitation_url e a =
     (if from_api a then
        (if api_key a = [] then
           bind_run (print_lines [''Error: API key required when using --from-api'',
               ''Set CREDEBL_API_KEY environment variable or use --api-key'']) (\<lambda>_.
             raise_run (SysExit 1))
         else
           bind_run (print_lines [''Creating invitation via API...'',
               ''  Base URL: '' @ base_url a, ''  Label: '' @ label a, []]) (\<lambda>_.
           bind_run (create_invitation_from_api e (base_url a) (api_key a) (label a))
             (read_invitation e a)))
      else
        (case invitation_url a of
           Some u \<Rightarrow> if u \<noteq> [] then return_run (JStr u) else usage_error
         | None \<Rightarrow> usage_error))"

text \<open>Line 233: the text put after \<^verbatim>\<open>data=\<close> in the link.\<close>

definition encoded_url :: "env \<Rightarrow> json_value \<Rightarrow> py_exception + string" where
  "encoded_url e url =
     (if requests_imported e then quote_value url else replace_value url)"

definition qrserver_link :: string where
  "qrserver_link = ''https://api.qrserver.com/v1/create-qr-code/?size=300x300&data=''"

text \<open>Lines 221 to 225.\<close>

definition terminal_block :: "env \<Rightarrow> args \<Rightarrow> json_value \<Rightarrow> unit run" where
  "terminal_block e a url =
     (if terminal a then
        bind_run (print_lines [''Terminal QR Code:'']) (\<lambda>_.
        bind_run (print_terminal_qr e url) (\<lambda>_.
          print_lines [[]]))
      else return_run ())"

text \<open>Lines 215 to 238: the image file and the report.\<close>

definition generate_and_report :: "env \<Rightarrow> args \<Rightarrow> string \<Rightarrow> json_value \<Rightarrow> unit run" where
  "generate_and_report e a out url =
     bind_run (print_lines [''Generating QR code...'']) (\<lambda>_.
     bind_run (create_qr_code e url out (size_arg a)) (\<lambda>_.
     bind_run (print_lines [''  Output: '' @ abspath e out, []]) (\<lambda>_.
     bind_run (terminal_block e a url) (\<lambda>_.
     bind_run (print_lines [''Invitation URL:'', str_of e url, []]) (\<lambda>_.
     bind_run (lift_exception (encoded_url e url)) (\<lambda>enc.
       print_lines [''Online QR Generator:'', qrserver_link @ enc, [],
                    ''Done! Scan the QR code with your mobile wallet.'']))))))"

definition main :: "env \<Rightarrow> command_line \<Rightarrow> unit run" where
  "main e c =
     (let a = parse_args e c; out = determine_output_file e a
      in bind_run (get_invitation_url e a) (generate_and_report e a out))"

section \<open>Concrete environments and command lines\<close>

text \<open>
  An agent that answers the POST with status 200 and the body of the spec's example;
  the clock reads 2024-01-02 03:04:05 and the working directory is \<^verbatim>\<open>/work\<close>.
\<close>

definition example_response :: response where
  "example_response =
     \<lparr> status_code = 200, http_error_text = [],
       json_result = Inr (JDict [(''invitationUrl'', JStr ''https://x?oob=Y''),
                                 (''outOfBandRecord'', JDict [(''id'', JStr ''rec-1'')])]) \<rparr>"

definition example_env :: env where
  "example_env =
     \<lparr> requests_imported = True,
       environ_CREDEBL_API_KEY = None,
       datetime_now = \<lparr> year = 2024, month = 1, day = 2, hour = 3, minute = 4, second = 5 \<rparr>,
       abspath = (\<lambda>p. ''/work/'' @ p),
       requests_post = (\<lambda>req. Inr example_response),
       qr_image_error = (\<lambda>qr path. None),
       qr_ascii_error = (\<lambda>qr. None),
       py_str = (\<lambda>v. ''None''),
       json_dumps = (\<lambda>v. ''{...}'') \<rparr>"

text \<open>The invocation \<^verbatim>\<open>generate-qr.py "https://example.com?oob=ABC123"\<close>.\<close>

definition direct_cli :: command_line where
  "direct_cli =
     \<lparr> given_invitation_url = Some ''https://example.com?oob=ABC123'',
       given_output_file = None, given_from_api = False, given_base_url = None,
       given_api_key = None, given_label = None, given_output = None, given_size = None,
       given_terminal = False, given_json = False \<rparr>"

text \<open>The invocation \<^verbatim>\<open>generate-qr.py --from-api -k mykey\<close>.\<close>

definition api_cli :: command_line where
  "api_cli = direct_cli \<lparr> given_invitation_url := None, given_from_api := True,
                          given_api_key := Some ''mykey'' \<rparr>"

text \<open>The same invocation with a positional URL as well: both sources are named.\<close>

definition both_cli :: command_line where
  "both_cli = api_cli \<lparr> given_invitation_url := Some ''https://example.com?oob=ABC123'' \<rparr>"

text \<open>
  \<^verbatim>\<open>generate-qr.py "https://example.com?oob=ABC123" bar.png -o ""\<close>: the flag is
  supplied with the empty string as its value.
\<close>

definition empty_flag_cli :: command_line where
  "empty_flag_cli = direct_cli \<lparr> given_output_file := Some ''bar.png'', given_output := Some [] \<rparr>"

text \<open>The interpreter without the \<^verbatim>\<open>requests\<close> package (line 39).\<close>

definition no_requests_env :: env where
  "no_requests_env = example_env \<lparr> requests_imported := False \<rparr>"

text \<open>An agent that answers 300 Multiple Choices, with the same JSON body.\<close>

definition multiple_choices_env :: env where
  "multiple_choices_env =
     example_env \<lparr> requests_post := (\<lambda>req. Inr (example_response \<lparr> status_code := 300 \<rparr>)) \<rparr>"

text \<open>An agent that answers 404 Not Found.\<close>

definition not_found_env :: env where
  "not_found_env =
     example_env \<lparr> requests_post := (\<lambda>req. Inr (example_response
        \<lparr> status_code := 404, http_error_text := ''404 Client Error: Not Found'' \<rparr>)) \<rparr>"

text \<open>An agent whose answer has no \<^verbatim>\<open>invitationUrl\<close> field.\<close>

definition no_url_env :: env where
  "no_url_env =
     example_env \<lparr> requests_post := (\<lambda>req. Inr (example_response
        \<lparr> json_result := Inr (JDict [(''outOfBandRecord'', JDict [(''id'', JStr ''rec-1'')])]) \<rparr>)) \<rparr>"

text \<open>
  A QR library that, like \<^verbatim>\<open>qrcode.QRCode\<close>, refuses a box size that is not positive:
  the constructor of line 44 raises \<^verbatim>\<open>ValueError\<close>.
\<close>

definition strict_qr_env :: env where
  "strict_qr_env =
     example_env \<lparr> qr_image_error := (\<lambda>qr path.
        if box_size qr \<le> 0 then Some (OtherException ''ValueError: Invalid box size'')
        else None) \<rparr>"

text \<open>\<^verbatim>\<open>generate-qr.py "https://example.com?oob=ABC123" -s -5\<close>.\<close>

definition negative_size_cli :: command_line where
  "negative_size_cli = direct_cli \<lparr> given_size := Some (- 5) \<rparr>"

section \<open>Properties of traces\<close>

fun is_http_post :: "event \<Rightarrow> bool" where
  "is_http_post (HttpPost req) = True"
| "is_http_post _ = False"

text \<open>
  The event \<open>QrImageFile\<close> says that \<^verbatim>\<open>create_qr_code\<close> was entered with these
  parameters. The image is saved, line 54 completed, exactly when none of the library
  calls of lines 44 to 54 raised.
\<close>

definition image_saved :: "env \<Rightarrow> qr_code \<Rightarrow> string \<Rightarrow> bool" where
  "image_saved e qr path \<longleftrightarrow> qr_image_error e qr path = None"

fun is_qr_image_file :: "event \<Rightarrow> bool" where
  "is_qr_image_file (QrImageFile qr fill back path) = True"
| "is_qr_image_file _ = False"

text \<open>
  The reserved characters of a URL (RFC 3986: the general delimiters and the
  sub-delimiters); \<open>CHR 0x27\<close> is the apostrophe.
\<close>

definition url_reserved :: "char \<Rightarrow> bool" where
  "url_reserved c \<longleftrightarrow> c \<in> set '':/?#[]@!$&()*+,;='' \<or> c = CHR 0x27"

section \<open>The run monad\<close>

lemma fst_bind_run:
  "fst (bind_run m f) = fst m @ (case snd m of Inl ex \<Rightarrow> [] | Inr x \<Rightarrow> fst (f x))"
  by (cases m) (simp add: bind_run_def split: sum.splits prod.splits)

lemma snd_bind_run:
  "snd (bind_run m f) = (case snd m of Inl ex \<Rightarrow> Inl ex | Inr x \<Rightarrow> snd (f x))"
  by (cases m) (simp add: bind_run_def split: sum.splits prod.splits)

lemma bind_print_lines:
  "bind_run (print_lines ls) f = (map Print ls @ fst (f ()), snd (f ()))"
  by (simp add: bind_run_def print_lines_def split: prod.splits)

lemma bind_emit: "bind_run (emit ev) f = (ev # fst (f ()), snd (f ()))"
  by (simp add: bind_run_def emit_def split: prod.splits)

lemma bind_return: "bind_run (return_run x) f = f x"
  by (simp add: bind_run_def return_run_def split: prod.splits)

lemma bind_raise: "bind_run (raise_run ex) f = ([], Inl ex)"
  by (simp add: bind_run_def raise_run_def)

lemma usage_error_eq:
  "usage_error =
     ([Print ''Error: Either provide invitation_url or use --from-api'', PrintHelp],
      Inl (SysExit 1))"
  by (simp add: usage_error_def bind_print_lines bind_emit raise_run_def)

section \<open>Missing API key\<close>

text \<open>
  Claim C2. An invocation with \<^verbatim>\<open>--from-api\<close> for which no API key is resolvable (no
  \<^verbatim>\<open>--api-key\<close> flag, and \<^verbatim>\<open>CREDEBL_API_KEY\<close> unset or empty) prints the two lines
  of the error and exits with status 1; nothing else happens, so no HTTP request is
  issued.
\<close>

theorem missing_api_key_exits_before_request:
  assumes "given_from_api c" and "given_api_key c = None"
    and "environ_CREDEBL_API_KEY e = None \<or> environ_CREDEBL_API_KEY e = Some []"
  shows "main e c =
           ([Print ''Error: API key required when using --from-api'',
             Print ''Set CREDEBL_API_KEY environment variable or use --api-key''],
            Inl (SysExit 1))
         \<and> (\<forall>req. HttpPost req \<notin> set (fst (main e c)))
         \<and> exit_status (snd (main e c)) = 1"
proof -
  let ?a = "parse_args e c"
  from assms have key: "api_key ?a = []" and api: "from_api ?a"
    by (auto simp: parse_args_def)
  have "get_invitation_url e ?a =
          ([Print ''Error: API key required when using --from-api'',
            Print ''Set CREDEBL_API_KEY environment variable or use --api-key''],
           Inl (SysExit 1))"
    using key api by (simp add: get_invitation_url_def bind_print_lines raise_run_def)
  then have "main e c =
          ([Print ''Error: API key required when using --from-api'',
            Print ''Set CREDEBL_API_KEY environment variable or use --api-key''],
           Inl (SysExit 1))"
    by (simp add: main_def Let_def bind_run_def)
  then show ?thesis by (simp add: exit_status_def)
qed

theorem missing_api_key_witness:
  "given_from_api (api_cli\<lparr>given_api_key := None\<rparr>)
   \<and> environ_CREDEBL_API_KEY example_env = None
   \<and> main example_env (api_cli\<lparr>given_api_key := None\<rparr>) =
           ([Print ''Error: API key required when using --from-api'',
             Print ''Set CREDEBL_API_KEY environment variable or use --api-key''],
            Inl (SysExit 1))"
  using missing_api_key_exits_before_request
          [of "api_cli\<lparr>given_api_key := None\<rparr>" example_env]
  by (simp add: api_cli_def direct_cli_def example_env_def)

section \<open>Traces of the functions\<close>

lemma create_qr_code_eq:
  "create_qr_code e d out s =
     ([QrImageFile \<lparr> version = 1, error_correction = ERROR_CORRECT_L, box_size = s,
                     border = 4, qr_data = d, make_fit = True \<rparr> ''black'' ''white'' out],
      case qr_image_error e \<lparr> version = 1, error_correction = ERROR_CORRECT_L, box_size = s,
                     border = 4, qr_data = d, make_fit = True \<rparr> out of
        Some ex \<Rightarrow> Inl (Uncaught ex) | None \<Rightarrow> Inr out)"
  by (simp add: create_qr_code_def Let_def bind_emit raise_run_def return_run_def
           split: option.splits)

lemma print_terminal_qr_eq:
  "print_terminal_qr e d =
     ([PrintAscii \<lparr> version = 1, error_correction = ERROR_CORRECT_L, box_size = 1,
                    border = 2, qr_data = d, make_fit = True \<rparr> True],
      case qr_ascii_error e \<lparr> version = 1, error_correction = ERROR_CORRECT_L, box_size = 1,
                    border = 2, qr_data = d, make_fit = True \<rparr> of
        Some ex \<Rightarrow> Inl (Uncaught ex) | None \<Rightarrow> Inr ())"
  by (simp add: print_terminal_qr_def Let_def bind_emit raise_run_def return_run_def
           split: option.splits)

lemma terminal_block_success:
  assumes "snd (terminal_block e a url) = Inr ()"
  shows "fst (terminal_block e a url) =
           (if terminal a
            then [Print ''Terminal QR Code:'',
                  PrintAscii \<lparr> version = 1, error_correction = ERROR_CORRECT_L, box_size = 1,
                    border = 2, qr_data = url, make_fit = True \<rparr> True,
                  Print []]
            else [])"
  using assms
  by (auto simp: terminal_block_def bind_print_lines print_terminal_qr_eq bind_run_def
        return_run_def print_lines_def split: option.splits if_splits)

lemma encoded_url_Inr:
  assumes "encoded_url e url = Inr enc"
  shows "\<exists>u. url = JStr u \<and> enc = (if requests_imported e then quote u else replace_ampersand u)"
  using assms by (cases url) (auto simp: encoded_url_def split: if_splits)

lemma generate_and_report_success:
  assumes "snd (generate_and_report e a out url) = Inr ()"
  shows "\<exists>u. url = JStr u \<and>
           fst (generate_and_report e a out url) =
             [Print ''Generating QR code...'',
              QrImageFile \<lparr> version = 1, error_correction = ERROR_CORRECT_L,
                  box_size = size_arg a, border = 4, qr_data = JStr u, make_fit = True \<rparr>
                ''black'' ''white'' out,
              Print (''  Output: '' @ abspath e out), Print []] @
             (if terminal a
              then [Print ''Terminal QR Code:'',
                    PrintAscii \<lparr> version = 1, error_correction = ERROR_CORRECT_L,
                      box_size = 1, border = 2, qr_data = JStr u, make_fit = True \<rparr> True,
                    Print []]
              else []) @
             [Print ''Invitation URL:'', Print u, Print [],
              Print ''Online QR Generator:'',
              Print (qrserver_link @ (if requests_imported e then quote u else replace_ampersand u)),
              Print [], Print ''Done! Scan the QR code with your mobile wallet.'']"
proof -
  let ?qr = "\<lparr> version = 1, error_correction = ERROR_CORRECT_L,
                  box_size = size_arg a, border = 4, qr_data = url, make_fit = True \<rparr>"
  from assms have img: "qr_image_error e ?qr out = None"
    by (simp add: generate_and_report_def snd_bind_run print_lines_def create_qr_code_eq
          split: option.splits sum.splits)
  from assms img have tb: "snd (terminal_block e a url) = Inr ()"
    by (simp add: generate_and_report_def snd_bind_run print_lines_def create_qr_code_eq
          split: option.splits sum.splits)
  from assms img tb obtain enc where enc: "encoded_url e url = Inr enc"
    by (auto simp add: generate_and_report_def snd_bind_run print_lines_def create_qr_code_eq
          lift_exception_def raise_run_def return_run_def
          split: option.splits sum.splits)
  from encoded_url_Inr [OF enc] obtain u where u: "url = JStr u"
    and e: "enc = (if requests_imported e then quote u else replace_ampersand u)" by blast
  have "fst (generate_and_report e a out url) =
          [Print ''Generating QR code...'', QrImageFile ?qr ''black'' ''white'' out,
           Print (''  Output: '' @ abspath e out), Print []] @
          fst (terminal_block e a url) @
          [Print ''Invitation URL:'', Print u, Print [],
           Print ''Online QR Generator:'', Print (qrserver_link @ enc),
           Print [], Print ''Done! Scan the QR code with your mobile wallet.'']"
    using img tb enc u
    by (simp add: generate_and_report_def fst_bind_run snd_bind_run print_lines_def
          create_qr_code_eq lift_exception_def return_run_def str_of_def)
  with terminal_block_success [OF tb] u e show ?thesis by simp
qed

lemma generate_and_report_images:
  "filter is_qr_image_file (fst (generate_and_report e a out url)) =
     [QrImageFile \<lparr> version = 1, error_correction = ERROR_CORRECT_L,
          box_size = size_arg a, border = 4, qr_data = url, make_fit = True \<rparr>
        ''black'' ''white'' out]"
  by (simp add: generate_and_report_def fst_bind_run snd_bind_run print_lines_def
        create_qr_code_eq lift_exception_def return_run_def raise_run_def
        terminal_block_def print_terminal_qr_eq
        split: option.splits sum.splits)

lemma generate_and_report_posts:
  "filter is_http_post (fst (generate_and_report e a out url)) = []"
  by (simp add: generate_and_report_def fst_bind_run snd_bind_run print_lines_def
        create_qr_code_eq lift_exception_def return_run_def raise_run_def
        terminal_block_def print_terminal_qr_eq
        split: option.splits sum.splits)

lemma create_invitation_from_api_eq:
  "create_invitation_from_api e base key lbl =
     (if \<not> requests_imported e
      then ([Print ''Error: requests package not installed.'',
             Print ''Run: pip install requests''], Inl (SysExit 1))
      else (case post_and_parse e (invitation_request base key lbl) of
              Inr v \<Rightarrow> ([HttpPost (invitation_request base key lbl)], Inr v)
            | Inl (RequestException msg) \<Rightarrow>
                ([HttpPost (invitation_request base key lbl),
                  Print (''Error creating invitation: '' @ msg)], Inl (SysExit 1))
            | Inl ex \<Rightarrow> ([HttpPost (invitation_request base key lbl)], Inl (Uncaught ex))))"
  by (simp add: create_invitation_from_api_def bind_print_lines bind_emit raise_run_def
        return_run_def split: sum.splits py_exception.splits)

lemma create_invitation_from_api_posts:
  "filter is_http_post (fst (create_invitation_from_api e base key lbl)) =
     (if requests_imported e then [HttpPost (invitation_request base key lbl)] else [])"
  by (simp add: create_invitation_from_api_eq split: sum.splits py_exception.splits)

lemma create_invitation_from_api_images:
  "filter is_qr_image_file (fst (create_invitation_from_api e base key lbl)) = []"
  by (simp add: create_invitation_from_api_eq split: sum.splits py_exception.splits)

lemma read_invitation_posts:
  "filter is_http_post (fst (read_invitation e a d)) = []"
  by (simp add: read_invitation_def fst_bind_run snd_bind_run print_lines_def
        lift_exception_def return_run_def raise_run_def split: sum.splits)

lemma read_invitation_images:
  "filter is_qr_image_file (fst (read_invitation e a d)) = []"
  by (simp add: read_invitation_def fst_bind_run snd_bind_run print_lines_def
        lift_exception_def return_run_def raise_run_def split: sum.splits)

lemma read_invitation_dict:
  "read_invitation e a (JDict items) =
     ((if json a then [Print (json_dumps e (JDict items)), Print []] else []) @
      Print ''Invitation created successfully!'' #
      (case oob_record_id (JDict items) of
         Inl ex \<Rightarrow> []
       | Inr rid \<Rightarrow> [Print (''  OOB Record ID: '' @ str_of e rid), Print []]),
      case oob_record_id (JDict items) of
        Inl ex \<Rightarrow> Inl (Uncaught ex)
      | Inr rid \<Rightarrow> Inr (case map_of items ''invitationUrl'' of Some v \<Rightarrow> v | None \<Rightarrow> JNull))"
  by (simp add: read_invitation_def bind_run_def print_lines_def
        lift_exception_def return_run_def raise_run_def split: sum.splits)

lemma read_invitation_success:
  assumes "snd (read_invitation e a d) = Inr url"
  shows "\<exists>items rid. d = JDict items \<and> oob_record_id d = Inr rid \<and>
           dict_get d ''invitationUrl'' JNull = Inr url \<and>
           fst (read_invitation e a d) =
             (if json a then [Print (json_dumps e d), Print []] else []) @
             [Print ''Invitation created successfully!'',
              Print (''  OOB Record ID: '' @ str_of e rid), Print []]"
proof (cases d)
  case (JDict items)
  with assms show ?thesis
    by (auto simp: read_invitation_dict split: sum.splits)
qed (use assms in \<open>simp_all add: read_invitation_def bind_run_def lift_exception_def raise_run_def\<close>)

lemma get_invitation_url_images:
  "filter is_qr_image_file (fst (get_invitation_url e a)) = []"
  by (simp add: get_invitation_url_def fst_bind_run snd_bind_run print_lines_def
        return_run_def raise_run_def usage_error_eq create_invitation_from_api_images
        read_invitation_images split: sum.splits option.splits)

lemma get_invitation_url_posts:
  "filter is_http_post (fst (get_invitation_url e a)) =
     (if from_api a \<and> api_key a \<noteq> [] \<and> requests_imported e
      then [HttpPost (invitation_request (base_url a) (api_key a) (label a))] else [])"
  by (simp add: get_invitation_url_def fst_bind_run snd_bind_run print_lines_def
        return_run_def raise_run_def usage_error_eq create_invitation_from_api_posts
        read_invitation_posts split: sum.splits option.splits)

lemma main_images:
  "filter is_qr_image_file (fst (main e c)) =
     (case snd (get_invitation_url e (parse_args e c)) of
        Inl ex \<Rightarrow> []
      | Inr url \<Rightarrow>
          [QrImageFile \<lparr> version = 1, error_correction = ERROR_CORRECT_L,
               box_size = size_arg (parse_args e c), border = 4, qr_data = url,
               make_fit = True \<rparr>
             ''black'' ''white'' (determine_output_file e (parse_args e c))])"
  by (simp add: main_def Let_def fst_bind_run get_invitation_url_images
        generate_and_report_images split: sum.splits)

lemma main_posts:
  "filter is_http_post (fst (main e c)) =
     (if from_api (parse_args e c) \<and> api_key (parse_args e c) \<noteq> [] \<and> requests_imported e
      then [HttpPost (invitation_request (base_url (parse_args e c))
                        (api_key (parse_args e c)) (label (parse_args e c)))]
      else [])"
  by (simp add: main_def Let_def fst_bind_run get_invitation_url_posts
        generate_and_report_posts split: sum.splits)

section \<open>Evaluation on concrete inputs\<close>

lemmas script_defs =
  main_def parse_args_def determine_output_file_def get_invitation_url_def
  read_invitation_def oob_record_id_def create_invitation_from_api_def post_and_parse_def
  raise_for_status_def invitation_request_def generate_and_report_def terminal_block_def
  create_qr_code_def print_terminal_qr_def encoded_url_def lift_exception_def str_of_def
  usage_error_def bind_run_def emit_def return_run_def raise_run_def print_lines_def Let_def
  strftime_def pad2_def pad4_def digit_def qrserver_link_def

lemmas example_defs =
  example_env_def example_response_def direct_cli_def api_cli_def both_cli_def
  empty_flag_cli_def no_requests_env_def multiple_choices_env_def not_found_env_def
  no_url_env_def strict_qr_env_def negative_size_cli_def

section \<open>Usage errors\<close>

text \<open>
  Claim C1, as amended. When \<^verbatim>\<open>--from-api\<close> is not supplied and the positional
  invitation URL is absent (or the empty string), \<^verbatim>\<open>main\<close> prints the error line and
  the help text and exits with status 1; no image file is written and no request is
  sent. The claim's other case, both sources supplied, is not a usage error in the
  code (see the counterexample below).
\<close>

theorem no_source_is_usage_error:
  assumes "\<not> given_from_api c"
    and "given_invitation_url c = None \<or> given_invitation_url c = Some []"
  shows "main e c =
           ([Print ''Error: Either provide invitation_url or use --from-api'', PrintHelp],
            Inl (SysExit 1))
         \<and> exit_status (snd (main e c)) = 1
         \<and> filter is_qr_image_file (fst (main e c)) = []
         \<and> filter is_http_post (fst (main e c)) = []"
proof -
  let ?a = "parse_args e c"
  from assms have "get_invitation_url e ?a = usage_error"
    by (auto simp: get_invitation_url_def parse_args_def)
  then have "main e c =
           ([Print ''Error: Either provide invitation_url or use --from-api'', PrintHelp],
            Inl (SysExit 1))"
    by (simp add: main_def Let_def usage_error_eq bind_run_def)
  then show ?thesis by (simp add: exit_status_def)
qed

theorem no_source_witness:
  "\<not> given_from_api (direct_cli\<lparr>given_invitation_url := None\<rparr>)
   \<and> main example_env (direct_cli\<lparr>given_invitation_url := None\<rparr>) =
           ([Print ''Error: Either provide invitation_url or use --from-api'', PrintHelp],
            Inl (SysExit 1))"
  using no_source_is_usage_error [of "direct_cli\<lparr>given_invitation_url := None\<rparr>" example_env]
  by (simp add: direct_cli_def)

text \<open>
  The claim as stated fails when both a positional URL and \<^verbatim>\<open>--from-api\<close> are
  supplied: the run returns normally (exit status 0), prints no help text and writes
  the image file.
\<close>

theorem both_sources_counterexample:
  "given_invitation_url both_cli = Some ''https://example.com?oob=ABC123''
   \<and> given_from_api both_cli
   \<and> snd (main example_env both_cli) = Inr ()
   \<and> exit_status (snd (main example_env both_cli)) = 0
   \<and> PrintHelp \<notin> set (fst (main example_env both_cli))
   \<and> filter is_qr_image_file (fst (main example_env both_cli)) =
       [QrImageFile \<lparr> version = 1, error_correction = ERROR_CORRECT_L, box_size = 10,
                      border = 4, qr_data = JStr ''https://x?oob=Y'', make_fit = True \<rparr>
          ''black'' ''white'' ''qr_20240102_030405.png'']"
  by (simp add: script_defs example_defs exit_status_def)

section \<open>The acquisition of the invitation URL\<close>

lemma get_invitation_url_api_success:
  assumes "from_api a" and "snd (get_invitation_url e a) = Inr url"
  shows "\<exists>d. api_key a \<noteq> [] \<and> requests_imported e \<and>
           post_and_parse e (invitation_request (base_url a) (api_key a) (label a)) = Inr d \<and>
           snd (read_invitation e a d) = Inr url \<and>
           fst (get_invitation_url e a) =
             [Print ''Creating invitation via API...'', Print (''  Base URL: '' @ base_url a),
              Print (''  Label: '' @ label a), Print [],
              HttpPost (invitation_request (base_url a) (api_key a) (label a))] @
             fst (read_invitation e a d)"
  using assms
  by (auto simp: get_invitation_url_def fst_bind_run snd_bind_run print_lines_def raise_run_def
        create_invitation_from_api_eq split: if_splits sum.splits py_exception.splits)

lemma get_invitation_url_direct:
  assumes "\<not> from_api a"
  shows "get_invitation_url e a =
           (case invitation_url a of
              Some u \<Rightarrow> if u \<noteq> [] then ([], Inr (JStr u)) else usage_error
            | None \<Rightarrow> usage_error)"
  using assms by (simp add: get_invitation_url_def return_run_def split: option.splits)

lemma generate_and_report_no_help:
  "PrintHelp \<notin> set (fst (generate_and_report e a out url))"
  by (simp add: generate_and_report_def fst_bind_run snd_bind_run print_lines_def
        create_qr_code_eq lift_exception_def return_run_def raise_run_def
        terminal_block_def print_terminal_qr_eq
        split: option.splits sum.splits)

lemma read_invitation_no_help:
  "PrintHelp \<notin> set (fst (read_invitation e a d))"
  by (simp add: read_invitation_def fst_bind_run snd_bind_run print_lines_def
        lift_exception_def return_run_def raise_run_def split: sum.splits)

lemma get_invitation_url_api_no_help:
  assumes "from_api a"
  shows "PrintHelp \<notin> set (fst (get_invitation_url e a))"
  using assms
  by (simp add: get_invitation_url_def fst_bind_run snd_bind_run print_lines_def
        return_run_def raise_run_def create_invitation_from_api_eq
        read_invitation_no_help split: sum.splits option.splits py_exception.splits)

section \<open>The HTTP request\<close>

text \<open>
  Claim C5, as amended. In API mode with a non-empty API key, and with the
  \<^verbatim>\<open>requests\<close> package importable, a run issues exactly one HTTP POST: to the base
  URL followed by \<^verbatim>\<open>/didcomm/oob/create-invitation\<close>, with the header
  \<^verbatim>\<open>authorization\<close> set to the API key (and \<^verbatim>\<open>Content-Type: application/json\<close>), a
  timeout of 30 seconds and the JSON body of the six fields below, \<^verbatim>\<open>label\<close> being the
  resolved label.
\<close>

theorem one_post_to_create_invitation:
  assumes "given_from_api c" and "api_key (parse_args e c) \<noteq> []" and "requests_imported e"
  shows "filter is_http_post (fst (main e c)) =
     [HttpPost
        \<lparr> request_url = base_url (parse_args e c) @ ''/didcomm/oob/create-invitation'',
          request_headers = [(''authorization'', api_key (parse_args e c)),
                             (''Content-Type'', ''application/json'')],
          request_json =
            JDict [(''label'', JStr (label (parse_args e c))),
                   (''goalCode'', JStr ''issue-vc''),
                   (''goal'', JStr ''Issue Verifiable Credential''),
                   (''handshake'', JBool True),
                   (''handshakeProtocols'',
                      JList [JStr ''https://didcomm.org/didexchange/1.x'',
                             JStr ''https://didcomm.org/connections/1.x'']),
                   (''autoAcceptConnection'', JBool True)],
          request_timeout = 30 \<rparr>]"
proof -
  from assms(1) have "from_api (parse_args e c)" by (simp add: parse_args_def)
  with assms(2,3) show ?thesis
    by (simp add: main_posts invitation_request_def)
qed

theorem one_post_witness:
  "given_from_api api_cli \<and> requests_imported example_env \<and>
   filter is_http_post (fst (main example_env api_cli)) =
     [HttpPost
        \<lparr> request_url = ''http://localhost:8004/didcomm/oob/create-invitation'',
          request_headers = [(''authorization'', ''mykey''),
                             (''Content-Type'', ''application/json'')],
          request_json =
            JDict [(''label'', JStr ''CREDEBL Issuer''),
                   (''goalCode'', JStr ''issue-vc''),
                   (''goal'', JStr ''Issue Verifiable Credential''),
                   (''handshake'', JBool True),
                   (''handshakeProtocols'',
                      JList [JStr ''https://didcomm.org/didexchange/1.x'',
                             JStr ''https://didcomm.org/connections/1.x'']),
                   (''autoAcceptConnection'', JBool True)],
          request_timeout = 30 \<rparr>]"
  using one_post_to_create_invitation [of api_cli example_env]
  by (simp add: api_cli_def direct_cli_def example_env_def parse_args_def)

text \<open>
  The claim as stated, for every invocation in API mode with an API key, fails where the
  \<^verbatim>\<open>requests\<close> package is not installed: the guard of lines 61 to 64 prints its
  error and exits before any request.
\<close>

theorem no_requests_package_counterexample:
  "given_from_api api_cli
   \<and> api_key (parse_args no_requests_env api_cli) = ''mykey''
   \<and> filter is_http_post (fst (main no_requests_env api_cli)) = []
   \<and> main no_requests_env api_cli =
       ([Print ''Creating invitation via API...'', Print ''  Base URL: http://localhost:8004'',
         Print ''  Label: CREDEBL Issuer'', Print [],
         Print ''Error: requests package not installed.'',
         Print ''Run: pip install requests''],
        Inl (SysExit 1))"
  by (simp add: script_defs example_defs)

section \<open>A failing request\<close>

text \<open>
  Claim C3, as amended. In API mode, when the POST raises a \<^verbatim>\<open>RequestException\<close> (a
  transport error) or returns a status from 400 to 599, the statuses on which
  \<^verbatim>\<open>raise_for_status\<close> raises, the run prints the status lines, sends the one request,
  prints \<^verbatim>\<open>Error creating invitation:\<close> with the exception's text and exits with
  status 1: there is no second request and no image file.
\<close>

theorem http_error_exits_without_image:
  assumes "given_from_api c" and "api_key (parse_args e c) \<noteq> []" and "requests_imported e"
    and "requests_post e (invitation_request (base_url (parse_args e c))
            (api_key (parse_args e c)) (label (parse_args e c))) = Inl (RequestException msg)
         \<or> (\<exists>resp. requests_post e (invitation_request (base_url (parse_args e c))
                      (api_key (parse_args e c)) (label (parse_args e c))) = Inr resp
               \<and> 400 \<le> status_code resp \<and> status_code resp < 600
               \<and> http_error_text resp = msg)"
  shows "main e c =
           ([Print ''Creating invitation via API...'',
             Print (''  Base URL: '' @ base_url (parse_args e c)),
             Print (''  Label: '' @ label (parse_args e c)), Print [],
             HttpPost (invitation_request (base_url (parse_args e c))
                         (api_key (parse_args e c)) (label (parse_args e c))),
             Print (''Error creating invitation: '' @ msg)],
            Inl (SysExit 1))
         \<and> exit_status (snd (main e c)) = 1
         \<and> filter is_qr_image_file (fst (main e c)) = []
         \<and> length (filter is_http_post (fst (main e c))) = 1"
proof -
  let ?a = "parse_args e c"
  let ?req = "invitation_request (base_url ?a) (api_key ?a) (label ?a)"
  from assms(1) have api: "from_api ?a" by (simp add: parse_args_def)
  from assms(4) have "post_and_parse e ?req = Inl (RequestException msg)"
    by (auto simp: post_and_parse_def raise_for_status_def)
  then have "get_invitation_url e ?a =
           ([Print ''Creating invitation via API...'', Print (''  Base URL: '' @ base_url ?a),
             Print (''  Label: '' @ label ?a), Print [], HttpPost ?req,
             Print (''Error creating invitation: '' @ msg)],
            Inl (SysExit 1))"
    using api assms(2,3)
    by (simp add: get_invitation_url_def print_lines_def create_invitation_from_api_eq
          bind_run_def)
  then have "main e c =
           ([Print ''Creating invitation via API...'', Print (''  Base URL: '' @ base_url ?a),
             Print (''  Label: '' @ label ?a), Print [], HttpPost ?req,
             Print (''Error creating invitation: '' @ msg)],
            Inl (SysExit 1))"
    by (simp add: main_def Let_def bind_run_def)
  then show ?thesis by (simp add: exit_status_def)
qed

theorem http_error_witness:
  "given_from_api api_cli \<and> requests_imported not_found_env \<and>
   main not_found_env api_cli =
           ([Print ''Creating invitation via API...'',
             Print ''  Base URL: http://localhost:8004'',
             Print ''  Label: CREDEBL Issuer'', Print [],
             HttpPost (invitation_request ''http://localhost:8004'' ''mykey'' ''CREDEBL Issuer''),
             Print ''Error creating invitation: 404 Client Error: Not Found''],
            Inl (SysExit 1))"
  using http_error_exits_without_image [of api_cli not_found_env "''404 Client Error: Not Found''"]
  by (simp add: api_cli_def direct_cli_def not_found_env_def example_env_def
        example_response_def parse_args_def)

text \<open>
  The claim as stated, for every status outside 200 to 299, fails for a response with
  status 300 and a JSON body: \<^verbatim>\<open>raise_for_status\<close> returns, and the run writes the
  image and ends with exit status 0.
\<close>

theorem status_300_counterexample:
  "requests_post multiple_choices_env
       (invitation_request ''http://localhost:8004'' ''mykey'' ''CREDEBL Issuer'') =
     Inr (example_response \<lparr> status_code := 300 \<rparr>)
   \<and> status_code (example_response \<lparr> status_code := 300 \<rparr>) = 300
   \<and> snd (main multiple_choices_env api_cli) = Inr ()
   \<and> exit_status (snd (main multiple_choices_env api_cli)) = 0
   \<and> filter is_qr_image_file (fst (main multiple_choices_env api_cli)) =
       [QrImageFile \<lparr> version = 1, error_correction = ERROR_CORRECT_L, box_size = 10,
                      border = 4, qr_data = JStr ''https://x?oob=Y'', make_fit = True \<rparr>
          ''black'' ''white'' ''qr_20240102_030405.png'']"
  by (simp add: script_defs example_defs exit_status_def)

section \<open>Both sources named\<close>

lemma parse_args_without_url:
  "parse_args e (c\<lparr>given_invitation_url := x\<rparr>) = (parse_args e c)\<lparr>invitation_url := x\<rparr>"
  by (simp add: parse_args_def)

lemma read_invitation_ignores_url:
  "read_invitation e (a\<lparr>invitation_url := x\<rparr>) = read_invitation e a"
  by (rule ext) (simp add: read_invitation_def)

lemma generate_and_report_ignores_url:
  "generate_and_report e (a\<lparr>invitation_url := x\<rparr>) out = generate_and_report e a out"
  by (rule ext) (simp add: generate_and_report_def terminal_block_def)

lemma determine_output_file_ignores_url:
  "determine_output_file e (a\<lparr>invitation_url := x\<rparr>) = determine_output_file e a"
  by (simp add: determine_output_file_def split: option.splits)

lemma get_invitation_url_api_ignores_url:
  assumes "from_api a"
  shows "get_invitation_url e (a\<lparr>invitation_url := x\<rparr>) = get_invitation_url e a"
  using assms by (simp add: get_invitation_url_def read_invitation_ignores_url)

lemma main_api_prefix:
  assumes "from_api (parse_args e c)" and "api_key (parse_args e c) \<noteq> []"
  shows "take 4 (fst (main e c)) =
           [Print ''Creating invitation via API...'',
            Print (''  Base URL: '' @ base_url (parse_args e c)),
            Print (''  Label: '' @ label (parse_args e c)), Print []]"
  using assms
  by (simp add: main_def Let_def get_invitation_url_def fst_bind_run print_lines_def)

lemma main_api_no_help:
  assumes "from_api (parse_args e c)"
  shows "PrintHelp \<notin> set (fst (main e c))"
  using assms
  by (simp add: main_def Let_def fst_bind_run get_invitation_url_api_no_help
        generate_and_report_no_help split: sum.splits)

lemma main_api_image_data:
  assumes "from_api (parse_args e c)"
    and "QrImageFile qr fill back path \<in> set (fst (main e c))"
  shows "\<exists>d. post_and_parse e (invitation_request (base_url (parse_args e c))
                 (api_key (parse_args e c)) (label (parse_args e c))) = Inr d
             \<and> dict_get d ''invitationUrl'' JNull = Inr (qr_data qr)"
proof -
  let ?a = "parse_args e c"
  from assms(2) have "QrImageFile qr fill back path \<in> set (filter is_qr_image_file (fst (main e c)))"
    by simp
  then have "\<exists>url. snd (get_invitation_url e ?a) = Inr url \<and> qr_data qr = url"
    by (cases "snd (get_invitation_url e ?a)") (auto simp: main_images)
  then obtain url where url: "snd (get_invitation_url e ?a) = Inr url" and "qr_data qr = url"
    by blast
  from get_invitation_url_api_success [OF assms(1) url] obtain d where
    "post_and_parse e (invitation_request (base_url ?a) (api_key ?a) (label ?a)) = Inr d"
    and "snd (read_invitation e ?a d) = Inr url" by blast
  with read_invitation_success [of e ?a d url] \<open>qr_data qr = url\<close> show ?thesis by auto
qed

text \<open>
  Claim C10. When both a positional invitation URL and \<^verbatim>\<open>--from-api\<close> are supplied,
  with a non-empty API key, the run is the run of the same command line without the
  positional URL: the URL is never read. No help text is printed, the run starts with
  the status lines of the API path, and the data of any image written is the
  \<^verbatim>\<open>invitationUrl\<close> field of the value the API returned.
\<close>

theorem positional_url_ignored_in_api_mode:
  assumes "given_from_api c" and "given_invitation_url c = Some u"
    and "api_key (parse_args e c) \<noteq> []"
  shows "main e c = main e (c\<lparr>given_invitation_url := None\<rparr>)
         \<and> PrintHelp \<notin> set (fst (main e c))
         \<and> take 4 (fst (main e c)) =
             [Print ''Creating invitation via API...'',
              Print (''  Base URL: '' @ base_url (parse_args e c)),
              Print (''  Label: '' @ label (parse_args e c)), Print []]
         \<and> (\<forall>qr fill back path.
               QrImageFile qr fill back path \<in> set (fst (main e c)) \<longrightarrow>
               (\<exists>d. post_and_parse e (invitation_request (base_url (parse_args e c))
                        (api_key (parse_args e c)) (label (parse_args e c))) = Inr d
                    \<and> dict_get d ''invitationUrl'' JNull = Inr (qr_data qr)))"
proof -
  from assms(1) have api: "from_api (parse_args e c)" by (simp add: parse_args_def)
  have "main e c = main e (c\<lparr>given_invitation_url := None\<rparr>)"
    using api
    by (simp add: main_def Let_def parse_args_without_url get_invitation_url_api_ignores_url
          generate_and_report_ignores_url determine_output_file_ignores_url)
  with main_api_prefix [OF api assms(3)] main_api_no_help [OF api] main_api_image_data [OF api]
  show ?thesis by blast
qed

theorem positional_url_ignored_witness:
  "given_from_api both_cli
   \<and> given_invitation_url both_cli = Some ''https://example.com?oob=ABC123''
   \<and> main example_env both_cli = main example_env api_cli
   \<and> PrintHelp \<notin> set (fst (main example_env both_cli))
   \<and> filter is_qr_image_file (fst (main example_env both_cli)) =
       [QrImageFile \<lparr> version = 1, error_correction = ERROR_CORRECT_L, box_size = 10,
                      border = 4, qr_data = JStr ''https://x?oob=Y'', make_fit = True \<rparr>
          ''black'' ''white'' ''qr_20240102_030405.png'']"
proof -
  have "both_cli\<lparr>given_invitation_url := None\<rparr> = api_cli"
    by (simp add: both_cli_def api_cli_def)
  moreover have "api_key (parse_args example_env both_cli) \<noteq> []"
    by (simp add: parse_args_def both_cli_def api_cli_def direct_cli_def)
  moreover have "given_from_api both_cli"
    and "given_invitation_url both_cli = Some ''https://example.com?oob=ABC123''"
    by (simp_all add: both_cli_def api_cli_def direct_cli_def)
  moreover have "filter is_qr_image_file (fst (main example_env api_cli)) =
       [QrImageFile \<lparr> version = 1, error_correction = ERROR_CORRECT_L, box_size = 10,
                      border = 4, qr_data = JStr ''https://x?oob=Y'', make_fit = True \<rparr>
          ''black'' ''white'' ''qr_20240102_030405.png'']"
    by (simp add: script_defs example_defs)
  ultimately show ?thesis
    using positional_url_ignored_in_api_mode
            [of both_cli "''https://example.com?oob=ABC123''" example_env]
    by auto
qed

section \<open>A response without the field \<^verbatim>\<open>invitationUrl\<close>\<close>

lemma generate_and_report_null:
  assumes "requests_imported e"
  shows "\<exists>ex. snd (generate_and_report e a out JNull) = Inl (Uncaught ex)"
  using assms
  by (simp add: generate_and_report_def snd_bind_run print_lines_def create_qr_code_eq
        terminal_block_def print_terminal_qr_eq lift_exception_def raise_run_def return_run_def
        encoded_url_def split: option.splits sum.splits)

text \<open>
  Claim C6. When the API answers with a status on which \<^verbatim>\<open>raise_for_status\<close> returns
  and a JSON object without the field \<^verbatim>\<open>invitationUrl\<close>, the acquisition does not
  fail: \<^verbatim>\<open>create_invitation_from_api\<close> returns the object after its one request,
  printing no error, and \<^verbatim>\<open>.get("invitationUrl")\<close> is \<^verbatim>\<open>None\<close>. That \<^verbatim>\<open>None\<close> is
  the data handed to the QR encoder (unless line 205, which displays the record id,
  raises first), and the run ends with an uncaught exception of a later step, never
  with the \<^verbatim>\<open>sys.exit(1)\<close> of the failed request.
\<close>

theorem missing_invitation_url_passes_none:
  assumes "given_from_api c" and "api_key (parse_args e c) \<noteq> []" and "requests_imported e"
    and "requests_post e (invitation_request (base_url (parse_args e c))
            (api_key (parse_args e c)) (label (parse_args e c))) = Inr resp"
    and "\<not> (400 \<le> status_code resp \<and> status_code resp < 600)"
    and "json_result resp = Inr (JDict items)"
    and "map_of items ''invitationUrl'' = None"
  shows "create_invitation_from_api e (base_url (parse_args e c)) (api_key (parse_args e c))
             (label (parse_args e c)) =
           ([HttpPost (invitation_request (base_url (parse_args e c))
               (api_key (parse_args e c)) (label (parse_args e c)))], Inr (JDict items))
         \<and> dict_get (JDict items) ''invitationUrl'' JNull = Inr JNull
         \<and> filter is_qr_image_file (fst (main e c)) =
             (case oob_record_id (JDict items) of
                Inl ex \<Rightarrow> []
              | Inr rid \<Rightarrow>
                  [QrImageFile \<lparr> version = 1, error_correction = ERROR_CORRECT_L,
                       box_size = size_arg (parse_args e c), border = 4, qr_data = JNull,
                       make_fit = True \<rparr>
                     ''black'' ''white'' (determine_output_file e (parse_args e c))])
         \<and> (\<exists>ex. snd (main e c) = Inl (Uncaught ex))"
proof -
  let ?a = "parse_args e c"
  let ?req = "invitation_request (base_url ?a) (api_key ?a) (label ?a)"
  from assms(1) have api: "from_api ?a" by (simp add: parse_args_def)
  from assms(4-6) have pp: "post_and_parse e ?req = Inr (JDict items)"
    by (simp add: post_and_parse_def raise_for_status_def)
  with assms(3) have acq: "create_invitation_from_api e (base_url ?a) (api_key ?a) (label ?a) =
      ([HttpPost ?req], Inr (JDict items))"
    by (simp add: create_invitation_from_api_eq)
  have get: "snd (get_invitation_url e ?a) =
      (case oob_record_id (JDict items) of Inl ex \<Rightarrow> Inl (Uncaught ex) | Inr rid \<Rightarrow> Inr JNull)"
    using api assms(2,7) acq
    by (simp add: get_invitation_url_def snd_bind_run print_lines_def read_invitation_dict
          split: sum.splits)
  have img: "filter is_qr_image_file (fst (main e c)) =
             (case oob_record_id (JDict items) of
                Inl ex \<Rightarrow> []
              | Inr rid \<Rightarrow>
                  [QrImageFile \<lparr> version = 1, error_correction = ERROR_CORRECT_L,
                       box_size = size_arg ?a, border = 4, qr_data = JNull,
                       make_fit = True \<rparr>
                     ''black'' ''white'' (determine_output_file e ?a)])"
    by (simp add: main_images get split: sum.splits)
  have "\<exists>ex. snd (main e c) = Inl (Uncaught ex)"
  proof (cases "oob_record_id (JDict items)")
    case (Inl ex)
    with get show ?thesis by (simp add: main_def Let_def snd_bind_run)
  next
    case (Inr rid)
    with get generate_and_report_null [OF assms(3), of ?a "determine_output_file e ?a"]
    show ?thesis by (simp add: main_def Let_def snd_bind_run)
  qed
  with acq img assms(7) show ?thesis by simp
qed

theorem missing_invitation_url_witness:
  "given_from_api api_cli \<and> requests_imported no_url_env
   \<and> filter is_qr_image_file (fst (main no_url_env api_cli)) =
       [QrImageFile \<lparr> version = 1, error_correction = ERROR_CORRECT_L, box_size = 10,
                      border = 4, qr_data = JNull, make_fit = True \<rparr>
          ''black'' ''white'' ''qr_20240102_030405.png'']
   \<and> snd (main no_url_env api_cli) = Inl (Uncaught TypeError)"
proof -
  have "snd (main no_url_env api_cli) = Inl (Uncaught TypeError)"
    by (simp add: script_defs example_defs)
  moreover have "given_from_api api_cli" and "requests_imported no_url_env"
    by (simp_all add: example_defs)
  ultimately show ?thesis
    using missing_invitation_url_passes_none [of api_cli no_url_env
        "example_response \<lparr> json_result :=
            Inr (JDict [(''outOfBandRecord'', JDict [(''id'', JStr ''rec-1'')])]) \<rparr>"
        "[(''outOfBandRecord'', JDict [(''id'', JStr ''rec-1'')])]"]
    by (simp add: example_defs parse_args_def determine_output_file_def oob_record_id_def
          strftime_def pad2_def pad4_def digit_def)
qed

section \<open>The console output of a successful run\<close>

lemma main_success:
  assumes "snd (main e c) = Inr ()"
  shows "\<exists>url. snd (get_invitation_url e (parse_args e c)) = Inr url \<and>
           snd (generate_and_report e (parse_args e c)
                  (determine_output_file e (parse_args e c)) url) = Inr () \<and>
           fst (main e c) =
             fst (get_invitation_url e (parse_args e c)) @
             fst (generate_and_report e (parse_args e c)
                    (determine_output_file e (parse_args e c)) url)"
  using assms
  by (cases "snd (get_invitation_url e (parse_args e c))")
     (simp_all add: main_def Let_def snd_bind_run fst_bind_run)

lemma get_invitation_url_success:
  assumes "snd (get_invitation_url e a) = Inr url"
  shows "if from_api a
         then \<exists>d rid.
                post_and_parse e (invitation_request (base_url a) (api_key a) (label a)) = Inr d \<and>
                dict_get d ''invitationUrl'' JNull = Inr url \<and>
                oob_record_id d = Inr rid \<and>
                fst (get_invitation_url e a) =
                  [Print ''Creating invitation via API...'',
                   Print (''  Base URL: '' @ base_url a),
                   Print (''  Label: '' @ label a), Print [],
                   HttpPost (invitation_request (base_url a) (api_key a) (label a))] @
                  (if json a then [Print (json_dumps e d), Print []] else []) @
                  [Print ''Invitation created successfully!'',
                   Print (''  OOB Record ID: '' @ str_of e rid), Print []]
         else \<exists>u. invitation_url a = Some u \<and> url = JStr u \<and>
                fst (get_invitation_url e a) = []"
proof (cases "from_api a")
  case True
  from get_invitation_url_api_success [OF True assms] obtain d where
    pp: "post_and_parse e (invitation_request (base_url a) (api_key a) (label a)) = Inr d"
    and ri: "snd (read_invitation e a d) = Inr url"
    and tr: "fst (get_invitation_url e a) =
             [Print ''Creating invitation via API...'', Print (''  Base URL: '' @ base_url a),
              Print (''  Label: '' @ label a), Print [],
              HttpPost (invitation_request (base_url a) (api_key a) (label a))] @
             fst (read_invitation e a d)" by blast
  from read_invitation_success [OF ri] obtain rid where
    "oob_record_id d = Inr rid" and "dict_get d ''invitationUrl'' JNull = Inr url"
    and "fst (read_invitation e a d) =
             (if json a then [Print (json_dumps e d), Print []] else []) @
             [Print ''Invitation created successfully!'',
              Print (''  OOB Record ID: '' @ str_of e rid), Print []]" by blast
  with True pp tr show ?thesis by auto
next
  case False
  with assms show ?thesis
    by (auto simp: get_invitation_url_direct usage_error_eq split: option.splits if_splits)
qed

text \<open>
  Claim C8. A run that returns normally from \<^verbatim>\<open>main\<close> has exactly this console
  output, in this order: in API mode the status lines of the creation (around the one
  request, with the JSON dump when \<^verbatim>\<open>--json\<close> is set), nothing in direct mode; then
  the line with the absolute output path; then, only with \<^verbatim>\<open>--terminal\<close>, the terminal
  QR code, for the same data as the image file and before the line
  \<^verbatim>\<open>Invitation URL:\<close>; then the invitation URL unchanged; then the link to the
  qrserver service.
\<close>

theorem console_output_order:
  assumes "snd (main e c) = Inr ()"
  shows "\<exists>u api_lines.
     (if given_from_api c
      then \<exists>d rid.
             post_and_parse e (invitation_request (base_url (parse_args e c))
                (api_key (parse_args e c)) (label (parse_args e c))) = Inr d \<and>
             dict_get d ''invitationUrl'' JNull = Inr (JStr u) \<and>
             oob_record_id d = Inr rid \<and>
             api_lines =
               [Print ''Creating invitation via API...'',
                Print (''  Base URL: '' @ base_url (parse_args e c)),
                Print (''  Label: '' @ label (parse_args e c)), Print [],
                HttpPost (invitation_request (base_url (parse_args e c))
                   (api_key (parse_args e c)) (label (parse_args e c)))] @
               (if given_json c then [Print (json_dumps e d), Print []] else []) @
               [Print ''Invitation created successfully!'',
                Print (''  OOB Record ID: '' @ str_of e rid), Print []]
      else given_invitation_url c = Some u \<and> api_lines = []) \<and>
     fst (main e c) =
       api_lines @
       [Print ''Generating QR code...'',
        QrImageFile \<lparr> version = 1, error_correction = ERROR_CORRECT_L,
            box_size = size_arg (parse_args e c), border = 4, qr_data = JStr u,
            make_fit = True \<rparr>
          ''black'' ''white'' (determine_output_file e (parse_args e c)),
        Print (''  Output: '' @ abspath e (determine_output_file e (parse_args e c))),
        Print []] @
       (if given_terminal c
        then [Print ''Terminal QR Code:'',
              PrintAscii \<lparr> version = 1, error_correction = ERROR_CORRECT_L,
                box_size = 1, border = 2, qr_data = JStr u, make_fit = True \<rparr> True,
              Print []]
        else []) @
       [Print ''Invitation URL:'', Print u, Print [],
        Print ''Online QR Generator:'',
        Print (qrserver_link @ (if requests_imported e then quote u else replace_ampersand u)),
        Print [], Print ''Done! Scan the QR code with your mobile wallet.'']"
proof -
  let ?a = "parse_args e c"
  let ?out = "determine_output_file e ?a"
  have flags: "from_api ?a = given_from_api c" "json ?a = given_json c"
    "terminal ?a = given_terminal c" "invitation_url ?a = given_invitation_url c"
    by (simp_all add: parse_args_def)
  from main_success [OF assms] obtain url where
    get: "snd (get_invitation_url e ?a) = Inr url"
    and rep: "snd (generate_and_report e ?a ?out url) = Inr ()"
    and tr: "fst (main e c) =
               fst (get_invitation_url e ?a) @ fst (generate_and_report e ?a ?out url)"
    by blast
  from generate_and_report_success [OF rep] obtain u where u: "url = JStr u"
    and report: "fst (generate_and_report e ?a ?out url) =
             [Print ''Generating QR code...'',
              QrImageFile \<lparr> version = 1, error_correction = ERROR_CORRECT_L,
                  box_size = size_arg ?a, border = 4, qr_data = JStr u, make_fit = True \<rparr>
                ''black'' ''white'' ?out,
              Print (''  Output: '' @ abspath e ?out), Print []] @
             (if terminal ?a
              then [Print ''Terminal QR Code:'',
                    PrintAscii \<lparr> version = 1, error_correction = ERROR_CORRECT_L,
                      box_size = 1, border = 2, qr_data = JStr u, make_fit = True \<rparr> True,
                    Print []]
              else []) @
             [Print ''Invitation URL:'', Print u, Print [],
              Print ''Online QR Generator:'',
              Print (qrserver_link @ (if requests_imported e then quote u else replace_ampersand u)),
              Print [], Print ''Done! Scan the QR code with your mobile wallet.'']"
    by blast
  show ?thesis
  proof (cases "given_from_api c")
    case True
    with get_invitation_url_success [OF get] flags u obtain d rid where
      "post_and_parse e (invitation_request (base_url ?a) (api_key ?a) (label ?a)) = Inr d"
      "dict_get d ''invitationUrl'' JNull = Inr (JStr u)"
      "oob_record_id d = Inr rid"
      "fst (get_invitation_url e ?a) =
                  [Print ''Creating invitation via API...'',
                   Print (''  Base URL: '' @ base_url ?a),
                   Print (''  Label: '' @ label ?a), Print [],
                   HttpPost (invitation_request (base_url ?a) (api_key ?a) (label ?a))] @
                  (if given_json c then [Print (json_dumps e d), Print []] else []) @
                  [Print ''Invitation created successfully!'',
                   Print (''  OOB Record ID: '' @ str_of e rid), Print []]"
      by auto
    with True tr report flags show ?thesis
      by (intro exI [of _ u] exI [of _ "fst (get_invitation_url e ?a)"]) auto
  next
    case False
    with get_invitation_url_success [OF get] flags u have
      "given_invitation_url c = Some u" "fst (get_invitation_url e ?a) = []"
      by auto
    with False tr report flags show ?thesis
      by (intro exI [of _ u] exI [of _ "[]"]) auto
  qed
qed

theorem console_output_order_witness:
  "snd (main example_env (api_cli\<lparr>given_terminal := True\<rparr>)) = Inr ()
   \<and> fst (main example_env (api_cli\<lparr>given_terminal := True\<rparr>)) =
       [Print ''Creating invitation via API...'',
        Print ''  Base URL: http://localhost:8004'',
        Print ''  Label: CREDEBL Issuer'', Print [],
        HttpPost (invitation_request ''http://localhost:8004'' ''mykey'' ''CREDEBL Issuer''),
        Print ''Invitation created successfully!'',
        Print ''  OOB Record ID: rec-1'', Print [],
        Print ''Generating QR code...'',
        QrImageFile \<lparr> version = 1, error_correction = ERROR_CORRECT_L, box_size = 10,
            border = 4, qr_data = JStr ''https://x?oob=Y'', make_fit = True \<rparr>
          ''black'' ''white'' ''qr_20240102_030405.png'',
        Print ''  Output: /work/qr_20240102_030405.png'', Print [],
        Print ''Terminal QR Code:'',
        PrintAscii \<lparr> version = 1, error_correction = ERROR_CORRECT_L, box_size = 1,
            border = 2, qr_data = JStr ''https://x?oob=Y'', make_fit = True \<rparr> True,
        Print [],
        Print ''Invitation URL:'', Print ''https://x?oob=Y'', Print [],
        Print ''Online QR Generator:'',
        Print ''https://api.qrserver.com/v1/create-qr-code/?size=300x300&data=https%3A//x%3Foob%3DY'',
        Print [], Print ''Done! Scan the QR code with your mobile wallet.'']"
proof -
  have ok: "snd (main example_env (api_cli\<lparr>given_terminal := True\<rparr>)) = Inr ()"
    by (simp add: script_defs example_defs)
  have flags: "given_from_api (api_cli\<lparr>given_terminal := True\<rparr>)"
    "given_terminal (api_cli\<lparr>given_terminal := True\<rparr>)"
    "\<not> given_json (api_cli\<lparr>given_terminal := True\<rparr>)"
    by (simp_all add: example_defs)
  have d: "post_and_parse example_env (invitation_request ''http://localhost:8004'' ''mykey''
             ''CREDEBL Issuer'') =
           Inr (JDict [(''invitationUrl'', JStr ''https://x?oob=Y''),
                       (''outOfBandRecord'', JDict [(''id'', JStr ''rec-1'')])])"
    by (simp add: post_and_parse_def raise_for_status_def example_defs)
  have a: "base_url (parse_args example_env (api_cli\<lparr>given_terminal := True\<rparr>)) =
             ''http://localhost:8004''"
    "api_key (parse_args example_env (api_cli\<lparr>given_terminal := True\<rparr>)) = ''mykey''"
    "label (parse_args example_env (api_cli\<lparr>given_terminal := True\<rparr>)) = ''CREDEBL Issuer''"
    "size_arg (parse_args example_env (api_cli\<lparr>given_terminal := True\<rparr>)) = 10"
    "determine_output_file example_env
       (parse_args example_env (api_cli\<lparr>given_terminal := True\<rparr>)) =
     ''qr_20240102_030405.png''"
    by (simp_all add: parse_args_def determine_output_file_def example_defs strftime_def
          pad2_def pad4_def digit_def)
  have q: "quote ''https://x?oob=Y'' = ''https%3A//x%3Foob%3DY''"
    by (simp add: quote_def quote_byte_def always_safe_def hex_digit_def)
  from console_output_order [OF ok] flags d a q ok show ?thesis
    by (auto simp: oob_record_id_def str_of_def qrserver_link_def example_env_def)
qed

section \<open>The link to the online generator\<close>

lemma hex_digit_range: "hex_digit n \<in> set ''0123456789ABCDEF''"
  unfolding hex_digit_def by (rule nth_mem) simp

lemma quote_byte_chars:
  assumes "ch \<in> set (quote_byte c)"
  shows "ch \<in> set always_safe \<or> ch = CHR ''/'' \<or> ch = CHR ''%'' \<or>
         ch \<in> set ''0123456789ABCDEF''"
  using assms hex_digit_range [of "of_char c div 16"] hex_digit_range [of "of_char c"]
  by (auto simp: quote_byte_def split: if_splits)

lemma reserved_not_safe:
  assumes "url_reserved ch"
    and "ch \<in> set always_safe \<or> ch = CHR ''%'' \<or> ch \<in> set ''0123456789ABCDEF''"
  shows False
  using assms by (auto simp: url_reserved_def always_safe_def)

lemma quote_reserved:
  assumes "ch \<in> set (quote u)" and "url_reserved ch"
  shows "ch = CHR ''/''"
proof -
  from assms(1) obtain c where "ch \<in> set (quote_byte c)"
    by (auto simp: quote_def)
  from quote_byte_chars [OF this] reserved_not_safe [OF assms(2)] show ?thesis by blast
qed

lemma replace_ampersand_no_ampersand: "CHR ''&'' \<notin> set (replace_ampersand u)"
  by (auto simp: replace_ampersand_def split: if_splits)

text \<open>
  Claim C9, as amended. A run that returns normally ends with the line
  \<^verbatim>\<open>Online QR Generator:\<close>, the link, an empty line and the closing line. After
  \<^verbatim>\<open>data=\<close> the link carries the value of line 233: where the \<^verbatim>\<open>requests\<close> package
  is imported, \<^verbatim>\<open>quote\<close> of the invitation URL, in which every byte other than a
  letter, a digit, \<^verbatim>\<open>_.-~\<close> and the slash is percent-encoded, so that the slash is the
  only reserved character left; where it is not, the invitation URL with each
  ampersand replaced by \<^verbatim>\<open>%26\<close> and nothing else escaped.
\<close>

theorem link_encoding:
  assumes "snd (main e c) = Inr ()"
  shows "\<exists>u before.
           snd (get_invitation_url e (parse_args e c)) = Inr (JStr u)
           \<and> fst (main e c) =
               before @
               [Print ''Online QR Generator:'',
                Print (''https://api.qrserver.com/v1/create-qr-code/?size=300x300&data='' @
                       (if requests_imported e then quote u else replace_ampersand u)),
                Print [], Print ''Done! Scan the QR code with your mobile wallet.'']
           \<and> (\<forall>ch \<in> set (quote u). url_reserved ch \<longrightarrow> ch = CHR ''/'')
           \<and> CHR ''&'' \<notin> set (replace_ampersand u)"
proof -
  let ?a = "parse_args e c"
  let ?out = "determine_output_file e ?a"
  from main_success [OF assms] obtain url where
    get: "snd (get_invitation_url e ?a) = Inr url"
    and rep: "snd (generate_and_report e ?a ?out url) = Inr ()"
    and tr: "fst (main e c) =
               fst (get_invitation_url e ?a) @ fst (generate_and_report e ?a ?out url)"
    by blast
  from generate_and_report_success [OF rep] obtain u where u: "url = JStr u"
    and report: "fst (generate_and_report e ?a ?out url) =
             [Print ''Generating QR code...'',
              QrImageFile \<lparr> version = 1, error_correction = ERROR_CORRECT_L,
                  box_size = size_arg ?a, border = 4, qr_data = JStr u, make_fit = True \<rparr>
                ''black'' ''white'' ?out,
              Print (''  Output: '' @ abspath e ?out), Print []] @
             (if terminal ?a
              then [Print ''Terminal QR Code:'',
                    PrintAscii \<lparr> version = 1, error_correction = ERROR_CORRECT_L,
                      box_size = 1, border = 2, qr_data = JStr u, make_fit = True \<rparr> True,
                    Print []]
              else []) @
             [Print ''Invitation URL:'', Print u, Print [],
              Print ''Online QR Generator:'',
              Print (qrserver_link @ (if requests_imported e then quote u else replace_ampersand u)),
              Print [], Print ''Done! Scan the QR code with your mobile wallet.'']"
    by blast
  let ?before = "fst (get_invitation_url e ?a) @
             [Print ''Generating QR code...'',
              QrImageFile \<lparr> version = 1, error_correction = ERROR_CORRECT_L,
                  box_size = size_arg ?a, border = 4, qr_data = JStr u, make_fit = True \<rparr>
                ''black'' ''white'' ?out,
              Print (''  Output: '' @ abspath e ?out), Print []] @
             (if terminal ?a
              then [Print ''Terminal QR Code:'',
                    PrintAscii \<lparr> version = 1, error_correction = ERROR_CORRECT_L,
                      box_size = 1, border = 2, qr_data = JStr u, make_fit = True \<rparr> True,
                    Print []]
              else []) @
             [Print ''Invitation URL:'', Print u, Print []]"
  have "fst (main e c) =
               ?before @
               [Print ''Online QR Generator:'',
                Print (''https://api.qrserver.com/v1/create-qr-code/?size=300x300&data='' @
                       (if requests_imported e then quote u else replace_ampersand u)),
                Print [], Print ''Done! Scan the QR code with your mobile wallet.'']"
    using tr report by (simp add: qrserver_link_def)
  moreover have "\<forall>ch \<in> set (quote u). url_reserved ch \<longrightarrow> ch = CHR ''/''"
    using quote_reserved by blast
  ultimately show ?thesis
    using get u replace_ampersand_no_ampersand by blast
qed

theorem link_encoding_witness:
  "snd (main example_env direct_cli) = Inr ()
   \<and> Print ''https://api.qrserver.com/v1/create-qr-code/?size=300x300&data=https%3A//example.com%3Foob%3DABC123''
       \<in> set (fst (main example_env direct_cli))"
proof -
  have ok: "snd (main example_env direct_cli) = Inr ()"
    by (simp add: script_defs example_defs)
  have g: "snd (get_invitation_url example_env (parse_args example_env direct_cli)) =
             Inr (JStr ''https://example.com?oob=ABC123'')"
    by (simp add: get_invitation_url_def parse_args_def return_run_def example_defs)
  have q: "quote ''https://example.com?oob=ABC123'' = ''https%3A//example.com%3Foob%3DABC123''"
    by (simp add: quote_def quote_byte_def always_safe_def hex_digit_def)
  have r: "requests_imported example_env" by (simp add: example_env_def)
  from link_encoding [OF ok] g q r ok show ?thesis by auto
qed

text \<open>
  The claim as stated, all reserved characters escaped whichever branch produced the
  link, fails in the branch taken without the \<^verbatim>\<open>requests\<close> package: the question
  mark, the colon, the slashes and the equals sign of the URL are printed as they are.
\<close>

theorem unencoded_link_counterexample:
  "snd (main no_requests_env direct_cli) = Inr ()
   \<and> fst (main no_requests_env direct_cli) =
       [Print ''Generating QR code...'',
        QrImageFile \<lparr> version = 1, error_correction = ERROR_CORRECT_L, box_size = 10,
            border = 4, qr_data = JStr ''https://example.com?oob=ABC123'', make_fit = True \<rparr>
          ''black'' ''white'' ''qr_20240102_030405.png'',
        Print ''  Output: /work/qr_20240102_030405.png'', Print [],
        Print ''Invitation URL:'', Print ''https://example.com?oob=ABC123'', Print [],
        Print ''Online QR Generator:'',
        Print ''https://api.qrserver.com/v1/create-qr-code/?size=300x300&data=https://example.com?oob=ABC123'',
        Print [], Print ''Done! Scan the QR code with your mobile wallet.'']
   \<and> url_reserved CHR ''?''
   \<and> CHR ''?'' \<in> set (replace_ampersand ''https://example.com?oob=ABC123'')
   \<and> replace_ampersand ''https://example.com?oob=ABC123'' \<noteq>
       quote ''https://example.com?oob=ABC123''"
  by (simp add: script_defs example_defs url_reserved_def replace_ampersand_def quote_def
        quote_byte_def always_safe_def hex_digit_def)

section \<open>The output file\<close>

lemma digit_range: "digit n \<in> set ''0123456789''"
  unfolding digit_def by (rule nth_mem) simp

text \<open>
  Claim C4, as amended. The output file is the value of \<^verbatim>\<open>--output\<close> when the flag is
  supplied with a non-empty value; otherwise the positional output file when it is
  supplied; otherwise \<^verbatim>\<open>qr_\<close>, the clock's year in four digits, month, day, an
  underscore, hour, minute and second in two digits each, and \<^verbatim>\<open>.png\<close>. So with
  \<^verbatim>\<open>--output foo.png\<close> and a positional output file, \<^verbatim>\<open>foo.png\<close> is used.
\<close>

theorem output_file_resolution:
  "(given_output c = Some f \<and> f \<noteq> [] \<longrightarrow>
      determine_output_file e (parse_args e c) = f)
   \<and> ((given_output c = None \<or> given_output c = Some []) \<and> given_output_file c = Some p \<longrightarrow>
      determine_output_file e (parse_args e c) = p)
   \<and> ((given_output c = None \<or> given_output c = Some []) \<and> given_output_file c = None \<longrightarrow>
      determine_output_file e (parse_args e c) =
        ''qr_'' @ pad4 (year (datetime_now e)) @ pad2 (month (datetime_now e)) @
        pad2 (day (datetime_now e)) @ ''_'' @ pad2 (hour (datetime_now e)) @
        pad2 (minute (datetime_now e)) @ pad2 (second (datetime_now e)) @ ''.png'')
   \<and> length (pad4 n) = 4 \<and> length (pad2 n) = 2
   \<and> set (pad4 n) \<subseteq> set ''0123456789'' \<and> set (pad2 n) \<subseteq> set ''0123456789''"
proof -
  have d: "set (pad4 n) \<subseteq> set ''0123456789''" "set (pad2 n) \<subseteq> set ''0123456789''"
    using digit_range [of n] digit_range [of "n div 10"] digit_range [of "n div 100"]
      digit_range [of "n div 1000"]
    by (simp_all add: pad4_def pad2_def)
  have l: "length (pad4 n) = 4" "length (pad2 n) = 2"
    by (simp_all add: pad4_def pad2_def)
  have r1: "given_output c = Some f \<and> f \<noteq> [] \<longrightarrow>
      determine_output_file e (parse_args e c) = f"
    by (simp add: determine_output_file_def parse_args_def)
  have r2: "(given_output c = None \<or> given_output c = Some []) \<and> given_output_file c = Some p \<longrightarrow>
      determine_output_file e (parse_args e c) = p"
    by (auto simp: determine_output_file_def parse_args_def)
  have r3: "(given_output c = None \<or> given_output c = Some []) \<and> given_output_file c = None \<longrightarrow>
      determine_output_file e (parse_args e c) =
        ''qr_'' @ pad4 (year (datetime_now e)) @ pad2 (month (datetime_now e)) @
        pad2 (day (datetime_now e)) @ ''_'' @ pad2 (hour (datetime_now e)) @
        pad2 (minute (datetime_now e)) @ pad2 (second (datetime_now e)) @ ''.png''"
    by (auto simp: determine_output_file_def parse_args_def strftime_def)
  from r1 r2 r3 d l show ?thesis by blast
qed

theorem output_file_resolution_witness:
  "determine_output_file example_env
     (parse_args example_env
        (direct_cli\<lparr>given_output_file := Some ''bar.png'', given_output := Some ''foo.png''\<rparr>)) =
   ''foo.png''
   \<and> determine_output_file example_env
     (parse_args example_env (direct_cli\<lparr>given_output_file := Some ''bar.png''\<rparr>)) = ''bar.png''
   \<and> determine_output_file example_env (parse_args example_env direct_cli) =
       ''qr_20240102_030405.png''"
  using output_file_resolution [of
          "direct_cli\<lparr>given_output_file := Some ''bar.png'', given_output := Some ''foo.png''\<rparr>"
          "''foo.png''" example_env "''bar.png''" 0]
    output_file_resolution [of "direct_cli\<lparr>given_output_file := Some ''bar.png''\<rparr>"
          "''foo.png''" example_env "''bar.png''" 0]
    output_file_resolution [of direct_cli "''foo.png''" example_env "''bar.png''" 0]
  by (simp add: direct_cli_def example_env_def pad4_def pad2_def digit_def)

text \<open>
  The claim as stated, the flag's value whenever the flag is supplied, fails for
  \<^verbatim>\<open>-o ""\<close>: line 175 is \<^verbatim>\<open>args.output_file_flag or args.output_file\<close>, and the
  empty string is false, so the positional \<^verbatim>\<open>bar.png\<close> is used.
\<close>

theorem empty_output_flag_counterexample:
  "given_output empty_flag_cli = Some []
   \<and> given_output_file empty_flag_cli = Some ''bar.png''
   \<and> determine_output_file example_env (parse_args example_env empty_flag_cli) = ''bar.png''
   \<and> filter is_qr_image_file (fst (main example_env empty_flag_cli)) =
       [QrImageFile \<lparr> version = 1, error_correction = ERROR_CORRECT_L, box_size = 10,
            border = 4, qr_data = JStr ''https://example.com?oob=ABC123'', make_fit = True \<rparr>
          ''black'' ''white'' ''bar.png'']"
  by (simp add: script_defs example_defs)

section \<open>The image file\<close>

lemma generate_and_report_saved:
  assumes "snd (generate_and_report e a out url) = Inr ()"
  shows "qr_image_error e \<lparr> version = 1, error_correction = ERROR_CORRECT_L,
            box_size = size_arg a, border = 4, qr_data = url, make_fit = True \<rparr> out = None"
  using assms
  by (simp add: generate_and_report_def snd_bind_run print_lines_def create_qr_code_eq
        split: option.splits sum.splits)

lemma generate_and_report_library_error:
  assumes "qr_image_error e \<lparr> version = 1, error_correction = ERROR_CORRECT_L,
            box_size = size_arg a, border = 4, qr_data = url, make_fit = True \<rparr> out = Some ex"
  shows "generate_and_report e a out url =
           ([Print ''Generating QR code...'',
             QrImageFile \<lparr> version = 1, error_correction = ERROR_CORRECT_L,
                 box_size = size_arg a, border = 4, qr_data = url, make_fit = True \<rparr>
               ''black'' ''white'' out],
            Inl (Uncaught ex))"
  using assms
  by (simp add: generate_and_report_def bind_run_def print_lines_def create_qr_code_eq)

text \<open>
  Claim C7, as amended. For every invitation URL and every value of \<^verbatim>\<open>--size\<close>,
  \<^verbatim>\<open>create_qr_code\<close> asks the library for one image: version 1 with \<^verbatim>\<open>fit=True\<close>,
  error correction L, the given box size, border 4, black on white, at the given path.
  It returns the path, the image saved, exactly when the library raised in none of its
  calls; otherwise the exception is not caught. In \<^verbatim>\<open>main\<close> the box size is that
  of \<^verbatim>\<open>--size\<close> (10 when the flag is absent), the data is the invitation URL that was
  acquired (a positional URL as it stands) and the path is the resolved output file;
  every run that returns normally has saved that image, and a run in which the
  library raises ends with that exception right after the request, with no further
  output.
\<close>

theorem file_qr_parameters_and_save:
  "fst (create_qr_code e d out s) =
     [QrImageFile \<lparr> version = 1, error_correction = ERROR_CORRECT_L, box_size = s,
          border = 4, qr_data = d, make_fit = True \<rparr> ''black'' ''white'' out]
   \<and> snd (create_qr_code e d out s) =
       (case qr_image_error e \<lparr> version = 1, error_correction = ERROR_CORRECT_L, box_size = s,
               border = 4, qr_data = d, make_fit = True \<rparr> out of
          None \<Rightarrow> Inr out
        | Some ex \<Rightarrow> Inl (Uncaught ex))
   \<and> filter is_qr_image_file (fst (main e c)) =
     (case snd (get_invitation_url e (parse_args e c)) of
        Inl ex \<Rightarrow> []
      | Inr url \<Rightarrow>
          [QrImageFile \<lparr> version = 1, error_correction = ERROR_CORRECT_L,
               box_size = (case given_size c of Some n \<Rightarrow> n | None \<Rightarrow> 10),
               border = 4, qr_data = url, make_fit = True \<rparr>
             ''black'' ''white'' (determine_output_file e (parse_args e c))])
   \<and> (\<not> given_from_api c \<and> given_invitation_url c = Some u \<and> u \<noteq> [] \<longrightarrow>
        snd (get_invitation_url e (parse_args e c)) = Inr (JStr u))
   \<and> (snd (main e c) = Inr () \<longrightarrow>
        (\<exists>url. snd (get_invitation_url e (parse_args e c)) = Inr url \<and>
           image_saved e
             \<lparr> version = 1, error_correction = ERROR_CORRECT_L,
               box_size = (case given_size c of Some n \<Rightarrow> n | None \<Rightarrow> 10),
               border = 4, qr_data = url, make_fit = True \<rparr>
             (determine_output_file e (parse_args e c))))
   \<and> (\<forall>url ex.
         snd (get_invitation_url e (parse_args e c)) = Inr url \<and>
         qr_image_error e
           \<lparr> version = 1, error_correction = ERROR_CORRECT_L,
             box_size = (case given_size c of Some n \<Rightarrow> n | None \<Rightarrow> 10),
             border = 4, qr_data = url, make_fit = True \<rparr>
           (determine_output_file e (parse_args e c)) = Some ex \<longrightarrow>
         snd (main e c) = Inl (Uncaught ex) \<and>
         fst (main e c) =
           fst (get_invitation_url e (parse_args e c)) @
           [Print ''Generating QR code...'',
            QrImageFile \<lparr> version = 1, error_correction = ERROR_CORRECT_L,
                box_size = (case given_size c of Some n \<Rightarrow> n | None \<Rightarrow> 10),
                border = 4, qr_data = url, make_fit = True \<rparr>
              ''black'' ''white'' (determine_output_file e (parse_args e c))])"
proof -
  let ?a = "parse_args e c"
  let ?out = "determine_output_file e ?a"
  have sz: "size_arg ?a = (case given_size c of Some n \<Rightarrow> n | None \<Rightarrow> 10)"
    by (simp add: parse_args_def)
  have direct: "\<not> given_from_api c \<and> given_invitation_url c = Some u \<and> u \<noteq> [] \<longrightarrow>
        snd (get_invitation_url e ?a) = Inr (JStr u)"
    by (simp add: get_invitation_url_def parse_args_def return_run_def)
  have images: "filter is_qr_image_file (fst (main e c)) =
     (case snd (get_invitation_url e ?a) of
        Inl ex \<Rightarrow> []
      | Inr url \<Rightarrow>
          [QrImageFile \<lparr> version = 1, error_correction = ERROR_CORRECT_L,
               box_size = (case given_size c of Some n \<Rightarrow> n | None \<Rightarrow> 10),
               border = 4, qr_data = url, make_fit = True \<rparr>
             ''black'' ''white'' ?out])"
    using main_images [of e c] sz by (simp split: sum.splits)
  have saved: "snd (main e c) = Inr () \<longrightarrow>
        (\<exists>url. snd (get_invitation_url e ?a) = Inr url \<and>
           image_saved e
             \<lparr> version = 1, error_correction = ERROR_CORRECT_L,
               box_size = (case given_size c of Some n \<Rightarrow> n | None \<Rightarrow> 10),
               border = 4, qr_data = url, make_fit = True \<rparr> ?out)"
  proof
    assume "snd (main e c) = Inr ()"
    from main_success [OF this] obtain url where
      "snd (get_invitation_url e ?a) = Inr url"
      "snd (generate_and_report e ?a ?out url) = Inr ()" by blast
    with generate_and_report_saved [of e ?a ?out url] sz show
      "\<exists>url. snd (get_invitation_url e ?a) = Inr url \<and>
           image_saved e
             \<lparr> version = 1, error_correction = ERROR_CORRECT_L,
               box_size = (case given_size c of Some n \<Rightarrow> n | None \<Rightarrow> 10),
               border = 4, qr_data = url, make_fit = True \<rparr> ?out"
      by (auto simp: image_saved_def)
  qed
  have failed: "\<forall>url ex.
         snd (get_invitation_url e ?a) = Inr url \<and>
         qr_image_error e
           \<lparr> version = 1, error_correction = ERROR_CORRECT_L,
             box_size = (case given_size c of Some n \<Rightarrow> n | None \<Rightarrow> 10),
             border = 4, qr_data = url, make_fit = True \<rparr> ?out = Some ex \<longrightarrow>
         snd (main e c) = Inl (Uncaught ex) \<and>
         fst (main e c) =
           fst (get_invitation_url e ?a) @
           [Print ''Generating QR code...'',
            QrImageFile \<lparr> version = 1, error_correction = ERROR_CORRECT_L,
                box_size = (case given_size c of Some n \<Rightarrow> n | None \<Rightarrow> 10),
                border = 4, qr_data = url, make_fit = True \<rparr>
              ''black'' ''white'' ?out]"
  proof (intro allI impI, elim conjE)
    fix url ex
    assume get: "snd (get_invitation_url e ?a) = Inr url"
      and err: "qr_image_error e
           \<lparr> version = 1, error_correction = ERROR_CORRECT_L,
             box_size = (case given_size c of Some n \<Rightarrow> n | None \<Rightarrow> 10),
             border = 4, qr_data = url, make_fit = True \<rparr> ?out = Some ex"
    from err sz have "generate_and_report e ?a ?out url =
           ([Print ''Generating QR code...'',
             QrImageFile \<lparr> version = 1, error_correction = ERROR_CORRECT_L,
                 box_size = size_arg ?a, border = 4, qr_data = url, make_fit = True \<rparr>
               ''black'' ''white'' ?out],
            Inl (Uncaught ex))"
      by (intro generate_and_report_library_error) simp
    with get sz show "snd (main e c) = Inl (Uncaught ex) \<and>
         fst (main e c) =
           fst (get_invitation_url e ?a) @
           [Print ''Generating QR code...'',
            QrImageFile \<lparr> version = 1, error_correction = ERROR_CORRECT_L,
                box_size = (case given_size c of Some n \<Rightarrow> n | None \<Rightarrow> 10),
                border = 4, qr_data = url, make_fit = True \<rparr>
              ''black'' ''white'' ?out]"
      by (simp add: main_def Let_def snd_bind_run fst_bind_run)
  qed
  have req: "fst (create_qr_code e d out s) =
     [QrImageFile \<lparr> version = 1, error_correction = ERROR_CORRECT_L, box_size = s,
          border = 4, qr_data = d, make_fit = True \<rparr> ''black'' ''white'' out]"
    and res: "snd (create_qr_code e d out s) =
       (case qr_image_error e \<lparr> version = 1, error_correction = ERROR_CORRECT_L, box_size = s,
               border = 4, qr_data = d, make_fit = True \<rparr> out of
          None \<Rightarrow> Inr out
        | Some ex \<Rightarrow> Inl (Uncaught ex))"
    by (simp_all add: create_qr_code_eq split: option.splits)
  from req res images direct saved failed show ?thesis by blast
qed

theorem file_qr_parameters_and_save_witness:
  "snd (main example_env (direct_cli\<lparr>given_size := Some 7\<rparr>)) = Inr ()
   \<and> image_saved example_env
       \<lparr> version = 1, error_correction = ERROR_CORRECT_L, box_size = 7,
          border = 4, qr_data = JStr ''https://example.com?oob=ABC123'', make_fit = True \<rparr>
       ''qr_20240102_030405.png''
   \<and> filter is_qr_image_file (fst (main example_env (direct_cli\<lparr>given_size := Some 7\<rparr>))) =
     [QrImageFile \<lparr> version = 1, error_correction = ERROR_CORRECT_L, box_size = 7,
          border = 4, qr_data = JStr ''https://example.com?oob=ABC123'', make_fit = True \<rparr>
        ''black'' ''white'' ''qr_20240102_030405.png'']"
proof -
  have ok: "snd (main example_env (direct_cli\<lparr>given_size := Some 7\<rparr>)) = Inr ()"
    by (simp add: script_defs example_defs)
  have flags: "\<not> given_from_api (direct_cli\<lparr>given_size := Some 7\<rparr>)"
    "given_invitation_url (direct_cli\<lparr>given_size := Some 7\<rparr>) =
       Some ''https://example.com?oob=ABC123''"
    "given_size (direct_cli\<lparr>given_size := Some 7\<rparr>) = Some 7"
    by (simp_all add: direct_cli_def)
  have out: "determine_output_file example_env
       (parse_args example_env (direct_cli\<lparr>given_size := Some 7\<rparr>)) =
     ''qr_20240102_030405.png''"
    by (simp add: parse_args_def determine_output_file_def example_defs strftime_def
          pad2_def pad4_def digit_def)
  from file_qr_parameters_and_save [of example_env "JStr []" "[]" 0
      "direct_cli\<lparr>given_size := Some 7\<rparr>" "''https://example.com?oob=ABC123''"]
    ok flags out
  show ?thesis by auto
qed

text \<open>
  The claim as stated, the image saved for every value of \<^verbatim>\<open>--size\<close>, fails for
  \<^verbatim>\<open>-s -5\<close>: the library refuses the box size at line 44, line 54 is never reached
  and the run ends with the uncaught \<^verbatim>\<open>ValueError\<close> after the line
  \<^verbatim>\<open>Generating QR code...\<close>.
\<close>

theorem negative_size_counterexample:
  "given_size negative_size_cli = Some (- 5)
   \<and> qr_image_error strict_qr_env
        \<lparr> version = 1, error_correction = ERROR_CORRECT_L, box_size = - 5,
          border = 4, qr_data = JStr ''https://example.com?oob=ABC123'', make_fit = True \<rparr>
        ''qr_20240102_030405.png'' =
       Some (OtherException ''ValueError: Invalid box size'')
   \<and> \<not> image_saved strict_qr_env
        \<lparr> version = 1, error_correction = ERROR_CORRECT_L, box_size = - 5,
          border = 4, qr_data = JStr ''https://example.com?oob=ABC123'', make_fit = True \<rparr>
        ''qr_20240102_030405.png''
   \<and> create_qr_code strict_qr_env (JStr ''https://example.com?oob=ABC123'')
        ''qr_20240102_030405.png'' (- 5) =
       ([QrImageFile
           \<lparr> version = 1, error_correction = ERROR_CORRECT_L, box_size = - 5,
             border = 4, qr_data = JStr ''https://example.com?oob=ABC123'', make_fit = True \<rparr>
           ''black'' ''white'' ''qr_20240102_030405.png''],
        Inl (Uncaught (OtherException ''ValueError: Invalid box size'')))
   \<and> main strict_qr_env negative_size_cli =
       ([Print ''Generating QR code...'',
         QrImageFile
           \<lparr> version = 1, error_correction = ERROR_CORRECT_L, box_size = - 5,
             border = 4, qr_data = JStr ''https://example.com?oob=ABC123'', make_fit = True \<rparr>
           ''black'' ''white'' ''qr_20240102_030405.png''],
        Inl (Uncaught (OtherException ''ValueError: Invalid box size'')))"
  by (simp add: script_defs example_defs image_saved_def)

end
